theory Spec2Isabelle
  imports Main
begin

section \<open>Word Count Tracker: strings and numbers of the request\<close>

text \<open>
  The application is an Express server (the enhanced version with manager features; the
  plain version has the same login, authentication middleware and project handlers, without
  the \<open>permissions\<close> column, the \<open>daily_target\<close> column and the word-logging and manager
  routes; an earlier prototype with only the login routes is left out). Its handlers are
  modelled as functions from the database, the session and the request to a response and
  the database afterwards.

  A JavaScript string is modelled as a \<open>string\<close>, one \<open>char\<close> per code unit below 256.
  A form field or route parameter that is absent (\<open>undefined\<close>) is \<open>None\<close>.
  Numbers are the integers and \<open>NaN\<close> is \<open>None\<close>; the range of the integer columns
  is checked where a number is handed to the database (see there).
\<close>

text \<open>
  The white space of \<open>String.prototype.trim\<close> and of the regular expression class
  \<open>\s\<close>: tab, line feed, vertical tab, form feed, carriage return, space and the
  no-break space.
\<close>

definition isWhiteSpace :: "char \<Rightarrow> bool" where
  "isWhiteSpace c \<longleftrightarrow> (of_char c :: nat) \<in> {9, 10, 11, 12, 13, 32, 160}"

definition trimStart :: "string \<Rightarrow> string" where
  "trimStart s = dropWhile isWhiteSpace s"

definition trim :: "string \<Rightarrow> string" where
  "trim s = rev (dropWhile isWhiteSpace (rev (dropWhile isWhiteSpace s)))"

text \<open>
  \<open>s.split(/\s+/)\<close>: the pieces of \<open>s\<close> between the maximal runs of white space. A
  string without white space, the empty string included, is its own single piece; a run
  at the start or at the end leaves an empty piece there.
\<close>

function split_ws :: "string \<Rightarrow> string list" where
  "split_ws s =
     (case dropWhile (\<lambda>c. \<not> isWhiteSpace c) s of
        [] \<Rightarrow> [s]
      | c # cs \<Rightarrow> takeWhile (\<lambda>c. \<not> isWhiteSpace c) s # split_ws (dropWhile isWhiteSpace cs))"
  by pat_completeness auto
termination
proof (relation "measure length")
  show "wf (measure length)" by simp
next
  fix s :: string and c cs
  assume d: "dropWhile (\<lambda>c. \<not> isWhiteSpace c) s = c # cs"
  have "length (dropWhile isWhiteSpace cs) \<le> length cs"
    by (rule length_dropWhile_le)
  moreover have "length (c # cs) \<le> length s"
    unfolding d [symmetric] by (rule length_dropWhile_le)
  ultimately show "(dropWhile isWhiteSpace cs, s) \<in> measure length"
    by simp
qed

declare split_ws.simps [simp del]

text \<open>
  \<open>parseInt(string)\<close> with no radix: leading white space is skipped, then an optional
  sign, then an optional \<open>0x\<close> or \<open>0X\<close> that selects radix 16, then the longest run of
  digits of the radix; what follows is ignored. No digit gives \<open>NaN\<close>.
\<close>

definition digitValue :: "char \<Rightarrow> nat option" where
  "digitValue c =
     (let n = (of_char c :: nat) in
      if 48 \<le> n \<and> n \<le> 57 then Some (n - 48)
      else if 97 \<le> n \<and> n \<le> 122 then Some (n - 87)
      else if 65 \<le> n \<and> n \<le> 90 then Some (n - 55)
      else None)"

definition isRadixDigit :: "nat \<Rightarrow> char \<Rightarrow> bool" where
  "isRadixDigit R c = (case digitValue c of None \<Rightarrow> False | Some d \<Rightarrow> d < R)"

definition digitsValue :: "nat \<Rightarrow> string \<Rightarrow> nat" where
  "digitsValue R Z = foldl (\<lambda>acc c. acc * R + (case digitValue c of None \<Rightarrow> 0 | Some d \<Rightarrow> d)) 0 Z"

definition parseDigits :: "nat \<Rightarrow> string \<Rightarrow> nat option" where
  "parseDigits R S =
     (let Z = takeWhile (isRadixDigit R) S in
      if Z = [] then None else Some (digitsValue R Z))"

definition parseUnsigned :: "string \<Rightarrow> nat option" where
  "parseUnsigned S =
     (case S of
        c # d # rest \<Rightarrow>
          if c = CHR ''0'' \<and> (d = CHR ''x'' \<or> d = CHR ''X'') then parseDigits 16 rest
          else parseDigits 10 S
      | _ \<Rightarrow> parseDigits 10 S)"

definition parseInt :: "string \<Rightarrow> int option" where
  "parseInt inputString =
     (case trimStart inputString of
        [] \<Rightarrow> None
      | c # S \<Rightarrow>
          if c = CHR ''-'' then map_option (\<lambda>n. - int n) (parseUnsigned S)
          else if c = CHR ''+'' then map_option int (parseUnsigned S)
          else map_option int (parseUnsigned (c # S)))"

text \<open>\<open>parseInt\<close> of a field: \<open>parseInt(undefined)\<close> is \<open>NaN\<close>.\<close>

definition parseIntField :: "string option \<Rightarrow> int option" where
  "parseIntField f = (case f of None \<Rightarrow> None | Some s \<Rightarrow> parseInt s)"

text \<open>\<open>x > 0\<close> on a number: false for \<open>NaN\<close>.\<close>

definition positive :: "int option \<Rightarrow> bool" where
  "positive n = (case n of None \<Rightarrow> False | Some k \<Rightarrow> k > 0)"


section \<open>The database\<close>

text \<open>
  The tables the handlers query. The schema itself (the \<open>CREATE TABLE\<close> statements) is
  not among the sources, so each table has the columns the statements name, a table is
  the list of its rows in insertion order, and a point in time is an integer. A text
  column that a handler can fill from an absent form field holds \<open>None\<close> for \<open>NULL\<close>.
\<close>

type_synonym timestamp = int

record user_row =
  user_id :: int
  username :: "string option"
  email :: "string option"
  first_name :: "string option"
  last_name :: "string option"
  permissions :: "string option"
  created_at :: timestamp

record security_row =
  s_user_id :: int
  password_text :: string
  last_login :: "timestamp option"

record project_row =
  project_id :: int
  p_user_id :: int
  title :: "string option"
  genre :: "string option"
  description :: "string option"
  start_date :: timestamp

record goal_row =
  goal_id :: int
  g_project_id :: int
  goal_type :: string
  target_value :: int
  daily_target :: int
  g_start_date :: timestamp
  is_active :: bool

record progress_row =
  l_project_id :: int
  word_count :: int
  total_words :: int
  log_date :: timestamp

record database =
  User :: "user_row list"
  Security :: "security_row list"
  Project :: "project_row list"
  Goal :: "goal_row list"
  ProgressLog :: "progress_row list"
  project_id_seq :: int
  goal_id_seq :: int

text \<open>
  \<open>await db.query(...)\<close> either resolves or rejects; a rejection is thrown into the
  handler's \<open>catch\<close>. Statements run one by one with no transaction around them, so the
  statements before a rejected one stay in effect.
\<close>

datatype 'a attempt = Resolved 'a | Rejected

text \<open>
  Modelled from the spec: the schema is missing, and the statements below rely on it in
  four places. The identifier and word-count columns are PostgreSQL \<open>INTEGER\<close> columns
  (section 3 of the specification: identifiers and word counts), 32 bits wide: the
  database rejects a statement that is given \<open>NaN\<close> or a number outside
  \<open>-2147483648 .. 2147483647\<close> for one of them. The identifiers \<open>project_id\<close> and
  \<open>goal_id\<close> are generated by sequences (\<open>RETURNING project_id\<close>), which fail beyond
  that range. \<open>log_date\<close> defaults to the time of the insertion (every entry has a
  timestamp). Deleting a user removes the user's credentials, projects, goals and log
  entries (cascade from owner deletion). Uniqueness, not-null and foreign-key
  constraints are not modelled.

  Every number that a handler hands to a statement is checked against the range, so the
  rounding of JavaScript numbers beyond \<open>2^53\<close> never reaches a table: a number that
  large is rejected whatever it is rounded to, and the handlers' comparisons
  (\<open>> 0\<close>, \<open>=== 0\<close>, \<open>!==\<close>) give the same answers on the rounded number.
\<close>

definition in_int4 :: "int \<Rightarrow> bool" where
  "in_int4 n \<longleftrightarrow> - 2147483648 \<le> n \<and> n \<le> 2147483647"

text \<open>A number as the parameter for an integer column: the value the database accepts.\<close>

definition int4_param :: "int option \<Rightarrow> int option" where
  "int4_param p = (case p of None \<Rightarrow> None | Some n \<Rightarrow> if in_int4 n then Some n else None)"

subsection \<open>Queries\<close>

text \<open>
  \<open>ORDER BY log_date DESC LIMIT 1\<close>: a row with the greatest \<open>log_date\<close>. Among rows
  with the same \<open>log_date\<close> SQL may return any; the model returns the oldest of them.
\<close>

fun order_by_log_date_desc_limit_1 :: "progress_row list \<Rightarrow> progress_row option" where
  "order_by_log_date_desc_limit_1 [] = None"
| "order_by_log_date_desc_limit_1 (r # rs) =
     (case order_by_log_date_desc_limit_1 rs of
        None \<Rightarrow> Some r
      | Some m \<Rightarrow> if log_date r < log_date m then Some m else Some r)"

text \<open>
  \<open>SELECT total_words FROM ProgressLog WHERE project_id = $1 ORDER BY log_date DESC LIMIT 1\<close>
\<close>

definition lastLog_rows :: "database \<Rightarrow> int \<Rightarrow> progress_row option" where
  "lastLog_rows db pid =
     order_by_log_date_desc_limit_1 (filter (\<lambda>l. l_project_id l = pid) (ProgressLog db))"

definition select_lastLog :: "database \<Rightarrow> int option \<Rightarrow> progress_row option attempt" where
  "select_lastLog db projectId =
     (case int4_param projectId of
        None \<Rightarrow> Rejected
      | Some pid \<Rightarrow> Resolved (lastLog_rows db pid))"

text \<open>
  \<open>COALESCE(pl.total_words, 0) AS current_words\<close> over the same subquery: the
  project's current total, 0 when it has no entry.
\<close>

definition current_total :: "database \<Rightarrow> int \<Rightarrow> int" where
  "current_total db pid = (case lastLog_rows db pid of None \<Rightarrow> 0 | Some l \<Rightarrow> total_words l)"

text \<open>
  \<open>FROM Project p ... LEFT JOIN Goal g ON g.project_id = p.project_id AND g.is_active = true
  AND g.goal_type = 'total_words'\<close>: the project with each of its active \<open>total_words\<close>
  goals, or once with no goal when it has none.
\<close>

definition active_goals :: "database \<Rightarrow> int \<Rightarrow> goal_row list" where
  "active_goals db pid =
     filter (\<lambda>g. g_project_id g = pid \<and> is_active g \<and> goal_type g = ''total_words'') (Goal db)"

definition project_join :: "database \<Rightarrow> project_row \<Rightarrow> (project_row \<times> goal_row option) list" where
  "project_join db p =
     (case active_goals db (project_id p) of
        [] \<Rightarrow> [(p, None)]
      | gs \<Rightarrow> map (\<lambda>g. (p, Some g)) gs)"

text \<open>
  A result row is the list of its columns, each with its name, as the object that the
  driver hands to the handler.
\<close>

datatype sql_value = SNull | SInt int | SText string | STime timestamp

type_synonym row = "(string \<times> sql_value) list"

definition text_or_null :: "string option \<Rightarrow> sql_value" where
  "text_or_null x = (case x of None \<Rightarrow> SNull | Some v \<Rightarrow> SText v)"

text \<open>\<open>r.name\<close> on a result row; a column the row does not have is \<open>undefined\<close>.\<close>

definition column :: "string \<Rightarrow> row \<Rightarrow> sql_value" where
  "column name r = (case map_of r name of None \<Rightarrow> SNull | Some v \<Rightarrow> v)"

text \<open>
  \<open>COALESCE(g.target_value, 50000)\<close> and \<open>COALESCE(g.daily_target, 1000)\<close>.
\<close>

definition target_or_default :: "goal_row option \<Rightarrow> int" where
  "target_or_default g = (case g of None \<Rightarrow> 50000 | Some x \<Rightarrow> target_value x)"

definition daily_or_default :: "goal_row option \<Rightarrow> int" where
  "daily_or_default g = (case g of None \<Rightarrow> 1000 | Some x \<Rightarrow> daily_target x)"

text \<open>
  The select list of the dashboard and of the search:
  \<open>p.project_id AS id, p.title, p.genre, p.description, p.start_date, ... AS current_words,
  ... AS target_words, ... AS daily_goal\<close>.
\<close>

definition listing_columns :: "database \<Rightarrow> project_row \<times> goal_row option \<Rightarrow> row" where
  "listing_columns db pg =
     (case pg of (p, g) \<Rightarrow>
        [(''id'', SInt (project_id p)),
         (''title'', text_or_null (title p)),
         (''genre'', text_or_null (genre p)),
         (''description'', text_or_null (description p)),
         (''start_date'', STime (start_date p)),
         (''current_words'', SInt (current_total db (project_id p))),
         (''target_words'', SInt (target_or_default g)),
         (''daily_goal'', SInt (daily_or_default g))])"

text \<open>The select list of the edit form: the same columns and \<open>g.goal_id\<close>.\<close>

definition edit_columns :: "database \<Rightarrow> project_row \<times> goal_row option \<Rightarrow> row" where
  "edit_columns db pg =
     listing_columns db pg @
       [(''goal_id'', case snd pg of None \<Rightarrow> SNull | Some g \<Rightarrow> SInt (goal_id g))]"

text \<open>
  The select list of the two log-words queries:
  \<open>p.project_id AS id, p.title, p.genre, ... AS current_words, ... AS target_words,
  ... AS daily_goal\<close>.
\<close>

definition log_words_columns :: "database \<Rightarrow> project_row \<times> goal_row option \<Rightarrow> row" where
  "log_words_columns db pg =
     (case pg of (p, g) \<Rightarrow>
        [(''id'', SInt (project_id p)),
         (''title'', text_or_null (title p)),
         (''genre'', text_or_null (genre p)),
         (''current_words'', SInt (current_total db (project_id p))),
         (''target_words'', SInt (target_or_default g)),
         (''daily_goal'', SInt (daily_or_default g))])"

text \<open>
  The select list of the statistics:
  \<open>p.title, ... AS total_words, ... AS goal_words\<close>.
\<close>

definition stats_columns :: "database \<Rightarrow> project_row \<times> goal_row option \<Rightarrow> row" where
  "stats_columns db pg =
     (case pg of (p, g) \<Rightarrow>
        [(''title'', text_or_null (title p)),
         (''total_words'', SInt (current_total db (project_id p))),
         (''goal_words'', SInt (target_or_default g))])"

text \<open>\<open>... WHERE p.project_id = $1 AND p.user_id = $2\<close>\<close>

definition owned_project :: "database \<Rightarrow> int \<Rightarrow> int \<Rightarrow> (project_row \<times> goal_row option) list" where
  "owned_project db pid uid =
     concat (map (project_join db)
       (filter (\<lambda>p. project_id p = pid \<and> p_user_id p = uid) (Project db)))"

definition select_edit :: "database \<Rightarrow> int option \<Rightarrow> int \<Rightarrow> row list attempt" where
  "select_edit db projectId uid =
     (case (int4_param projectId, int4_param (Some uid)) of
        (Some pid, Some u) \<Rightarrow> Resolved (map (edit_columns db) (owned_project db pid u))
      | _ \<Rightarrow> Rejected)"

definition select_log_words :: "database \<Rightarrow> int option \<Rightarrow> int \<Rightarrow> row list attempt" where
  "select_log_words db projectId uid =
     (case (int4_param projectId, int4_param (Some uid)) of
        (Some pid, Some u) \<Rightarrow> Resolved (map (log_words_columns db) (owned_project db pid u))
      | _ \<Rightarrow> Rejected)"

text \<open>
  \<open>... WHERE p.user_id = $1 ORDER BY p.start_date DESC\<close>, with the optional
  \<open>LIKE\<close> filter of the search. Rows with the same \<open>start_date\<close> keep their table order.
\<close>

definition owned_projects ::
  "database \<Rightarrow> int \<Rightarrow> (project_row \<Rightarrow> bool) \<Rightarrow> (project_row \<times> goal_row option) list" where
  "owned_projects db uid matches =
     sort_key (\<lambda>pg. - start_date (fst pg))
       (concat (map (project_join db)
          (filter (\<lambda>p. p_user_id p = uid \<and> matches p) (Project db))))"

definition select_listing ::
  "database \<Rightarrow> int \<Rightarrow> (project_row \<Rightarrow> bool) \<Rightarrow> row list attempt" where
  "select_listing db uid matches =
     (case int4_param (Some uid) of
        None \<Rightarrow> Rejected
      | Some u \<Rightarrow> Resolved (map (listing_columns db) (owned_projects db u matches)))"

definition select_stats :: "database \<Rightarrow> int \<Rightarrow> row list attempt" where
  "select_stats db uid =
     (case int4_param (Some uid) of
        None \<Rightarrow> Rejected
      | Some u \<Rightarrow> Resolved (map (stats_columns db) (owned_projects db u (\<lambda>p. True))))"

text \<open>\<open>LOWER(x) LIKE LOWER('%' || q || '%')\<close> for a search term without wildcards.\<close>

definition lower :: "string \<Rightarrow> string" where
  "lower s = map (\<lambda>c. let n = (of_char c :: nat) in
                       if 65 \<le> n \<and> n \<le> 90 then char_of (n + 32) else c) s"

fun contains :: "string \<Rightarrow> string \<Rightarrow> bool" where
  "contains [] q = (q = [])"
| "contains (c # cs) q = (take (length q) (c # cs) = q \<or> contains cs q)"

definition like_lower :: "string option \<Rightarrow> string \<Rightarrow> bool" where
  "like_lower x q = (case x of None \<Rightarrow> False | Some v \<Rightarrow> contains (lower v) (lower q))"

definition like_search :: "string \<Rightarrow> project_row \<Rightarrow> bool" where
  "like_search q p \<longleftrightarrow> like_lower (title p) q \<or> like_lower (genre p) q"

subsection \<open>Statements that write\<close>

text \<open>
  \<open>INSERT INTO Project (user_id, title, genre, description, start_date)
  VALUES ($1, $2, $3, $4, $5) RETURNING project_id\<close>
\<close>

definition insert_project ::
  "database \<Rightarrow> int \<Rightarrow> string option \<Rightarrow> string option \<Rightarrow> string option \<Rightarrow> timestamp
     \<Rightarrow> (int \<times> database) attempt" where
  "insert_project db uid t g d sd =
     (case (int4_param (Some uid), int4_param (Some (project_id_seq db))) of
        (Some u, Some pid) \<Rightarrow>
          Resolved (pid, db\<lparr>Project := Project db @
                   [\<lparr>project_id = pid, p_user_id = u, title = t, genre = g,
                     description = d, start_date = sd\<rparr>],
                project_id_seq := pid + 1\<rparr>)
      | _ \<Rightarrow> Rejected)"

text \<open>
  \<open>INSERT INTO Goal (project_id, goal_type, target_value, daily_target, start_date, is_active)
  VALUES ($1, 'total_words', $2, $3, $4, true)\<close>
\<close>

definition insert_goal ::
  "database \<Rightarrow> int \<Rightarrow> int option \<Rightarrow> int \<Rightarrow> timestamp \<Rightarrow> database attempt" where
  "insert_goal db projectId target daily sd =
     (case (int4_param (Some projectId), int4_param target, int4_param (Some daily),
            int4_param (Some (goal_id_seq db))) of
        (Some pid, Some t, Some d, Some gid) \<Rightarrow>
          Resolved (db\<lparr>Goal := Goal db @
            [\<lparr>goal_id = gid, g_project_id = pid, goal_type = ''total_words'',
              target_value = t, daily_target = d, g_start_date = sd, is_active = True\<rparr>],
            goal_id_seq := gid + 1\<rparr>)
      | _ \<Rightarrow> Rejected)"

text \<open>
  \<open>INSERT INTO ProgressLog (project_id, word_count, total_words, log_date) VALUES (...)\<close>;
  the statements that leave \<open>log_date\<close> out get the default, the time of the insertion.
\<close>

definition insert_progress ::
  "database \<Rightarrow> int option \<Rightarrow> int option \<Rightarrow> int option \<Rightarrow> timestamp \<Rightarrow> database attempt" where
  "insert_progress db projectId wc tw ld =
     (case (int4_param projectId, int4_param wc, int4_param tw) of
        (Some pid, Some w, Some t) \<Rightarrow>
          Resolved (db\<lparr>ProgressLog := ProgressLog db @
            [\<lparr>l_project_id = pid, word_count = w, total_words = t, log_date = ld\<rparr>]\<rparr>)
      | _ \<Rightarrow> Rejected)"

text \<open>
  \<open>UPDATE Project SET title = $1, genre = $2, description = $3, start_date = $4
  WHERE project_id = $5 AND user_id = $6\<close>
\<close>

definition update_project ::
  "database \<Rightarrow> string option \<Rightarrow> string option \<Rightarrow> string option \<Rightarrow> timestamp
     \<Rightarrow> int option \<Rightarrow> int \<Rightarrow> database attempt" where
  "update_project db t g d sd projectId uid =
     (case (int4_param projectId, int4_param (Some uid)) of
        (Some pid, Some u) \<Rightarrow>
          Resolved (db\<lparr>Project :=
            map (\<lambda>p. if project_id p = pid \<and> p_user_id p = u
                      then p\<lparr>title := t, genre := g, description := d, start_date := sd\<rparr>
                      else p) (Project db)\<rparr>)
      | _ \<Rightarrow> Rejected)"

text \<open>
  \<open>UPDATE Goal SET target_value = $1, daily_target = $2
  WHERE project_id = $3 AND goal_type = 'total_words' AND is_active = true\<close>
\<close>

definition update_goal ::
  "database \<Rightarrow> int option \<Rightarrow> int \<Rightarrow> int option \<Rightarrow> database attempt" where
  "update_goal db target daily projectId =
     (case (int4_param target, int4_param (Some daily), int4_param projectId) of
        (Some t, Some d, Some pid) \<Rightarrow>
          Resolved (db\<lparr>Goal :=
            map (\<lambda>g. if g_project_id g = pid \<and> goal_type g = ''total_words'' \<and> is_active g
                      then g\<lparr>target_value := t, daily_target := d\<rparr>
                      else g) (Goal db)\<rparr>)
      | _ \<Rightarrow> Rejected)"

text \<open>\<open>DELETE FROM ProgressLog WHERE project_id = $1\<close>\<close>

definition delete_progress :: "database \<Rightarrow> int option \<Rightarrow> database attempt" where
  "delete_progress db projectId =
     (case int4_param projectId of
        None \<Rightarrow> Rejected
      | Some pid \<Rightarrow>
          Resolved (db\<lparr>ProgressLog := filter (\<lambda>l. l_project_id l \<noteq> pid) (ProgressLog db)\<rparr>))"

text \<open>\<open>DELETE FROM Goal WHERE project_id = $1\<close>\<close>

definition delete_goals :: "database \<Rightarrow> int option \<Rightarrow> database attempt" where
  "delete_goals db projectId =
     (case int4_param projectId of
        None \<Rightarrow> Rejected
      | Some pid \<Rightarrow>
          Resolved (db\<lparr>Goal := filter (\<lambda>g. g_project_id g \<noteq> pid) (Goal db)\<rparr>))"

text \<open>\<open>DELETE FROM Project WHERE project_id = $1 AND user_id = $2\<close>\<close>

definition delete_project :: "database \<Rightarrow> int option \<Rightarrow> int \<Rightarrow> database attempt" where
  "delete_project db projectId uid =
     (case (int4_param projectId, int4_param (Some uid)) of
        (Some pid, Some u) \<Rightarrow>
          Resolved (db\<lparr>Project :=
            filter (\<lambda>p. \<not> (project_id p = pid \<and> p_user_id p = u)) (Project db)\<rparr>)
      | _ \<Rightarrow> Rejected)"

text \<open>\<open>UPDATE Security SET last_login = CURRENT_TIMESTAMP WHERE user_id = $1\<close>\<close>

definition update_last_login :: "database \<Rightarrow> int \<Rightarrow> timestamp \<Rightarrow> database" where
  "update_last_login db uid now =
     db\<lparr>Security := map (\<lambda>s. if s_user_id s = uid then s\<lparr>last_login := Some now\<rparr> else s)
                        (Security db)\<rparr>"

text \<open>
  \<open>UPDATE "User" SET username = $1, email = $2, first_name = $3, last_name = $4,
  permissions = $5 WHERE user_id = $6\<close>
\<close>

definition update_user ::
  "database \<Rightarrow> string option \<Rightarrow> string option \<Rightarrow> string option \<Rightarrow> string option
     \<Rightarrow> string option \<Rightarrow> int option \<Rightarrow> database attempt" where
  "update_user db un em fn ln pm uid =
     (case int4_param uid of
        None \<Rightarrow> Rejected
      | Some i \<Rightarrow>
          Resolved (db\<lparr>User :=
            map (\<lambda>u. if user_id u = i
                      then u\<lparr>username := un, email := em, first_name := fn, last_name := ln,
                             permissions := pm\<rparr>
                      else u) (User db)\<rparr>))"

text \<open>
  \<open>DELETE FROM "User" WHERE user_id = $1\<close>.
  Modelled from the spec: the schema's \<open>ON DELETE\<close> rules are missing; the rows that
  belong to the user (credentials, projects, and the goals and log entries of those
  projects) go with the user, as section 3 of the specification says.
\<close>

definition delete_user :: "database \<Rightarrow> int option \<Rightarrow> database attempt" where
  "delete_user db uid =
     (case int4_param uid of
        None \<Rightarrow> Rejected
      | Some i \<Rightarrow>
          (let owned = map project_id (filter (\<lambda>p. p_user_id p = i) (Project db)) in
           Resolved (db\<lparr>
             User := filter (\<lambda>u. user_id u \<noteq> i) (User db),
             Security := filter (\<lambda>s. s_user_id s \<noteq> i) (Security db),
             Project := filter (\<lambda>p. p_user_id p \<noteq> i) (Project db),
             Goal := filter (\<lambda>g. g_project_id g \<notin> set owned) (Goal db),
             ProgressLog := filter (\<lambda>l. l_project_id l \<notin> set owned) (ProgressLog db)\<rparr>)))"

section \<open>Requests, sessions and responses\<close>

text \<open>
  The session after a login holds the fields the login handler stores; before a login
  and after \<open>req.session.destroy\<close> it holds none (\<open>None\<close>), and \<open>isLoggedIn\<close> is not
  set. \<open>userId\<close> is the \<open>user_id\<close> of the row the login found.
\<close>

record session =
  s_username :: "string option"
  userId :: int
  firstName :: "string option"
  s_permissions :: "string option"

definition isLoggedIn :: "session option \<Rightarrow> bool" where
  "isLoggedIn sess = (sess \<noteq> None)"

text \<open>
  \<open>req.body\<close> after \<open>express.urlencoded\<close>: every field a form of the application
  can send, \<open>None\<close> when it is absent. A field is a string (the arrays and objects that
  the extended parser builds from bracketed names are left out). \<open>startDate\<close> is the
  point in time the database reads the submitted date as.
\<close>

record body =
  b_username :: "string option"
  b_password :: "string option"
  b_title :: "string option"
  b_genre :: "string option"
  b_description :: "string option"
  targetWords :: "string option"
  currentWords :: "string option"
  dailyGoal :: "string option"
  startDate :: timestamp
  b_text :: "string option"
  manual_count :: "string option"
  b_email :: "string option"
  b_first_name :: "string option"
  b_last_name :: "string option"
  b_permissions :: "string option"

text \<open>
  The routes the application registers. Which of them a request reaches is decided by
  Express's router from the method and the path (without regard to letter case, with or
  without a trailing slash), and the router hands the handler the percent-decoded
  parameter \<open>req.params.id\<close>. The router is Express's, not the application's: a request
  comes with the route the router found for it and with the decoded parameter, and with
  \<open>req.path\<close>, which the authentication middleware reads.
\<close>

datatype route =
    GetRoot
  | PostLogin
  | GetLogout
  | GetDashboard
  | GetSearch
  | GetAdd
  | PostAdd
  | GetEdit string
  | PostEdit string
  | PostDelete string
  | GetLogWords string
  | PostLogWords string
  | GetStats
  | GetManageUsers
  | GetEditUser string
  | PostEditUser string
  | PostDeleteUser string
  | NoRoute

record request =
  req_path :: string
  req_route :: route
  query_q :: "string option"
  req_body :: body

datatype view_value =
    VText "string option"
  | VBool bool
  | VRow "row option"
  | VRows "row list"
  | VList "sql_value list"

datatype response =
    Render string "(string \<times> view_value) list"
  | Redirect string
  | Send nat string

section \<open>The handlers\<close>

subsection \<open>Login\<close>

text \<open>
  \<open>SELECT ... FROM "User" u INNER JOIN Security s ON u.user_id = s.user_id
  WHERE u.username = $1\<close>
\<close>

definition select_login :: "database \<Rightarrow> string option \<Rightarrow> (user_row \<times> security_row) list" where
  "select_login db un =
     concat (map (\<lambda>u. map (\<lambda>s. (u, s)) (filter (\<lambda>s. s_user_id s = user_id u) (Security db)))
                 (filter (\<lambda>u. un \<noteq> None \<and> username u = un) (User db)))"

definition post_login ::
  "database \<Rightarrow> timestamp \<Rightarrow> session option \<Rightarrow> string option \<Rightarrow> string option
     \<Rightarrow> response \<times> database \<times> session option" where
  "post_login db now sess un pw =
     (case select_login db un of
        [] \<Rightarrow> (Render ''login'' [(''error_message'', VText (Some ''Invalid username or password''))],
               db, sess)
      | (user, sec) # _ \<Rightarrow>
          (let validPassword = (pw = Some (password_text sec)) in
           if \<not> validPassword then
             (Render ''login'' [(''error_message'', VText (Some ''Invalid username or password''))],
              db, sess)
           else
             (Redirect ''/dashboard'',
              update_last_login db (user_id user) now,
              Some \<lparr>s_username = username user, userId = user_id user,
                    firstName = first_name user, s_permissions = permissions user\<rparr>)))"

subsection \<open>Project listings\<close>

definition isManager :: "session \<Rightarrow> bool" where
  "isManager s \<longleftrightarrow> s_permissions s = Some ''M''"

definition get_dashboard :: "database \<Rightarrow> session \<Rightarrow> response" where
  "get_dashboard db s =
     (case select_listing db (userId s) (\<lambda>p. True) of
        Resolved rows \<Rightarrow>
          Render ''dashboard''
            [(''username'', VText (s_username s)),
             (''projects'', VRows rows),
             (''isManager'', VBool (isManager s))]
      | Rejected \<Rightarrow>
          Render ''dashboard''
            [(''username'', VText (s_username s)),
             (''projects'', VRows []),
             (''isManager'', VBool (isManager s))])"

definition get_search :: "database \<Rightarrow> session \<Rightarrow> string option \<Rightarrow> response" where
  "get_search db s q =
     (let searchTerm = (case q of None \<Rightarrow> [] | Some t \<Rightarrow> t) in
      case select_listing db (userId s) (like_search searchTerm) of
        Resolved rows \<Rightarrow>
          Render ''dashboard''
            [(''username'', VText (s_username s)),
             (''projects'', VRows rows),
             (''searchTerm'', VText (Some searchTerm)),
             (''isManager'', VBool (isManager s))]
      | Rejected \<Rightarrow>
          Render ''dashboard''
            [(''username'', VText (s_username s)),
             (''projects'', VRows []),
             (''searchTerm'', VText (Some searchTerm)),
             (''isManager'', VBool (isManager s))])"

definition get_stats :: "database \<Rightarrow> session \<Rightarrow> response" where
  "get_stats db s =
     (case select_stats db (userId s) of
        Resolved rows \<Rightarrow>
          Render ''stats''
            [(''username'', VText (s_username s)),
             (''projects'', VList (map (column ''title'') rows)),
             (''totalWords'', VList (map (column ''total_words'') rows)),
             (''goalWords'', VList (map (column ''goal_words'') rows))]
      | Rejected \<Rightarrow>
          Render ''stats''
            [(''username'', VText (s_username s)),
             (''projects'', VList []),
             (''totalWords'', VList []),
             (''goalWords'', VList [])])"

subsection \<open>Adding a project\<close>

text \<open>\<open>x || null\<close> on a string: the empty string is falsy.\<close>

definition or_null :: "string option \<Rightarrow> string option" where
  "or_null x = (case x of None \<Rightarrow> None | Some v \<Rightarrow> if v = [] then None else Some v)"

text \<open>\<open>parseInt(x) || 1000\<close>: \<open>NaN\<close> and 0 are falsy.\<close>

definition or_1000 :: "int option \<Rightarrow> int" where
  "or_1000 n = (case n of None \<Rightarrow> 1000 | Some k \<Rightarrow> if k = 0 then 1000 else k)"

definition post_add :: "database \<Rightarrow> session \<Rightarrow> body \<Rightarrow> response \<times> database" where
  "post_add db s b =
     (case insert_project db (userId s) (b_title b) (b_genre b) (or_null (b_description b))
             (startDate b) of
        Rejected \<Rightarrow> (Redirect ''/dashboard'', db)
      | Resolved (projectId, db1) \<Rightarrow>
          (case insert_goal db1 projectId (parseIntField (targetWords b))
                  (or_1000 (parseIntField (dailyGoal b))) (startDate b) of
             Rejected \<Rightarrow> (Redirect ''/dashboard'', db1)
           | Resolved db2 \<Rightarrow>
               if positive (parseIntField (currentWords b)) then
                 (case insert_progress db2 (Some projectId) (parseIntField (currentWords b))
                         (parseIntField (currentWords b)) (startDate b) of
                    Rejected \<Rightarrow> (Redirect ''/dashboard'', db2)
                  | Resolved db3 \<Rightarrow> (Redirect ''/dashboard'', db3))
               else (Redirect ''/dashboard'', db2)))"

subsection \<open>Editing a project\<close>

text \<open>
  The form handler; it also rewrites \<open>start_date\<close> of the row as a date string for the
  form, which the model leaves as the point in time.
\<close>

definition get_edit :: "database \<Rightarrow> session \<Rightarrow> string \<Rightarrow> response" where
  "get_edit db s params_id =
     (case select_edit db (parseInt params_id) (userId s) of
        Rejected \<Rightarrow> Redirect ''/dashboard''
      | Resolved [] \<Rightarrow> Redirect ''/dashboard''
      | Resolved (project # _) \<Rightarrow>
          Render ''edit-project''
            [(''username'', VText (s_username s)), (''project'', VRow (Some project))])"

text \<open>
  The last part of the edit handler (``Update progress''), the specification's
  \<open>setAbsoluteTotal\<close>: the form restates the current total, and the difference to the
  last logged total becomes a new entry.
\<close>

definition setAbsoluteTotal ::
  "database \<Rightarrow> int option \<Rightarrow> int option \<Rightarrow> timestamp \<Rightarrow> database attempt" where
  "setAbsoluteTotal db projectId currentTotal now =
     (case select_lastLog db projectId of
        Rejected \<Rightarrow> Rejected
      | Resolved lastLog \<Rightarrow>
          (case lastLog of
             None \<Rightarrow>
               if positive currentTotal
               then insert_progress db projectId currentTotal currentTotal now
               else Resolved db
           | Some l \<Rightarrow>
               if Some (total_words l) \<noteq> currentTotal
               then (let diff = map_option (\<lambda>c. c - total_words l) currentTotal
                     in insert_progress db projectId diff currentTotal now)
               else Resolved db))"

definition post_edit ::
  "database \<Rightarrow> session \<Rightarrow> timestamp \<Rightarrow> string \<Rightarrow> body \<Rightarrow> response \<times> database" where
  "post_edit db s now params_id b =
     (let projectId = parseInt params_id in
      case update_project db (b_title b) (b_genre b) (or_null (b_description b)) (startDate b)
             projectId (userId s) of
        Rejected \<Rightarrow> (Redirect ''/dashboard'', db)
      | Resolved db1 \<Rightarrow>
          (case update_goal db1 (parseIntField (targetWords b))
                  (or_1000 (parseIntField (dailyGoal b))) projectId of
             Rejected \<Rightarrow> (Redirect ''/dashboard'', db1)
           | Resolved db2 \<Rightarrow>
               (case setAbsoluteTotal db2 projectId (parseIntField (currentWords b)) now of
                  Rejected \<Rightarrow> (Redirect ''/dashboard'', db2)
                | Resolved db3 \<Rightarrow> (Redirect ''/dashboard'', db3))))"

subsection \<open>Deleting a project\<close>

definition post_delete :: "database \<Rightarrow> session \<Rightarrow> string \<Rightarrow> response \<times> database" where
  "post_delete db s params_id =
     (let projectId = parseInt params_id in
      case delete_progress db projectId of
        Rejected \<Rightarrow> (Redirect ''/dashboard'', db)
      | Resolved db1 \<Rightarrow>
          (case delete_goals db1 projectId of
             Rejected \<Rightarrow> (Redirect ''/dashboard'', db1)
           | Resolved db2 \<Rightarrow>
               (case delete_project db2 projectId (userId s) of
                  Rejected \<Rightarrow> (Redirect ''/dashboard'', db2)
                | Resolved db3 \<Rightarrow> (Redirect ''/dashboard'', db3))))"

subsection \<open>Logging words\<close>

definition get_log_words :: "database \<Rightarrow> session \<Rightarrow> string \<Rightarrow> response" where
  "get_log_words db s params_id =
     (case select_log_words db (parseInt params_id) (userId s) of
        Rejected \<Rightarrow> Redirect ''/dashboard''
      | Resolved [] \<Rightarrow> Redirect ''/dashboard''
      | Resolved (project # _) \<Rightarrow>
          Render ''log-words''
            [(''username'', VText (s_username s)), (''project'', VRow (Some project)),
             (''error_message'', VText None), (''success_message'', VText None)])"

text \<open>
  ``Calculate word count'': a manual count that is positive wins; otherwise the text,
  when it is not blank, is trimmed and split at white space; otherwise 0.
\<close>

definition wordCount :: "string option \<Rightarrow> string option \<Rightarrow> int" where
  "wordCount text_field manual =
     (case (case manual of
              None \<Rightarrow> None
            | Some m \<Rightarrow> if m \<noteq> [] \<and> positive (parseInt m) then parseInt m else None) of
        Some n \<Rightarrow> n
      | None \<Rightarrow>
          (case text_field of
             None \<Rightarrow> 0
           | Some t \<Rightarrow>
               if t \<noteq> [] \<and> trim t \<noteq> [] then int (length (split_ws (trim t))) else 0))"

text \<open>
  The second half of the handler (``Get current total for the project'', ``Insert
  progress log''), the specification's \<open>recordWords\<close>. The new total is what the handler
  writes to the console.
\<close>

definition recordWords ::
  "database \<Rightarrow> int option \<Rightarrow> int \<Rightarrow> timestamp \<Rightarrow> (int \<times> database) attempt" where
  "recordWords db projectId wc now =
     (case select_lastLog db projectId of
        Rejected \<Rightarrow> Rejected
      | Resolved lastLog \<Rightarrow>
          (let previousTotal = (case lastLog of None \<Rightarrow> 0 | Some l \<Rightarrow> total_words l);
               newTotal = previousTotal + wc
           in case insert_progress db projectId (Some wc) (Some newTotal) now of
                Rejected \<Rightarrow> Rejected
              | Resolved db' \<Rightarrow> Resolved (newTotal, db')))"

definition post_log_words ::
  "database \<Rightarrow> session \<Rightarrow> timestamp \<Rightarrow> string \<Rightarrow> string option \<Rightarrow> string option
     \<Rightarrow> response \<times> database" where
  "post_log_words db s now params_id text_field manual =
     (let projectId = parseInt params_id;
          wc = wordCount text_field manual
      in if wc = 0 then
           (case select_log_words db projectId (userId s) of
              Rejected \<Rightarrow> (Redirect ''/dashboard'', db)
            | Resolved rows \<Rightarrow>
                (Render ''log-words''
                   [(''username'', VText (s_username s)),
                    (''project'', VRow (case rows of [] \<Rightarrow> None | r # _ \<Rightarrow> Some r)),
                    (''error_message'', VText (Some ''Please enter text or a word count'')),
                    (''success_message'', VText None)],
                 db))
         else
           (case recordWords db projectId wc now of
              Rejected \<Rightarrow> (Redirect ''/dashboard'', db)
            | Resolved (newTotal, db') \<Rightarrow> (Redirect ''/dashboard'', db')))"

subsection \<open>Manager routes\<close>

text \<open>
  \<open>SELECT u.user_id, u.username, u.email, u.first_name, u.last_name, u.permissions,
  u.created_at, s.last_login FROM "User" u LEFT JOIN Security s ON u.user_id = s.user_id
  ORDER BY u.created_at DESC\<close>
\<close>

definition user_columns :: "user_row \<Rightarrow> row" where
  "user_columns u =
     [(''user_id'', SInt (user_id u)),
      (''username'', text_or_null (username u)),
      (''email'', text_or_null (email u)),
      (''first_name'', text_or_null (first_name u)),
      (''last_name'', text_or_null (last_name u)),
      (''permissions'', text_or_null (permissions u))]"

definition manage_columns :: "user_row \<times> security_row option \<Rightarrow> row" where
  "manage_columns us =
     (case us of (u, sec) \<Rightarrow>
        user_columns u @
          [(''created_at'', STime (created_at u)),
           (''last_login'',
            case sec of
              None \<Rightarrow> SNull
            | Some x \<Rightarrow> (case last_login x of None \<Rightarrow> SNull | Some t \<Rightarrow> STime t))])"

definition select_users :: "database \<Rightarrow> row list" where
  "select_users db =
     map manage_columns
       (sort_key (\<lambda>us. - created_at (fst us))
          (concat (map (\<lambda>u. case filter (\<lambda>x. s_user_id x = user_id u) (Security db) of
                               [] \<Rightarrow> [(u, None)]
                             | ss \<Rightarrow> map (\<lambda>x. (u, Some x)) ss)
                       (User db))))"

definition get_manage_users :: "database \<Rightarrow> session \<Rightarrow> response" where
  "get_manage_users db s =
     Render ''manage-users''
       [(''username'', VText (s_username s)), (''users'', VRows (select_users db))]"

text \<open>
  \<open>SELECT u.user_id, u.username, u.email, u.first_name, u.last_name, u.permissions
  FROM "User" u WHERE u.user_id = $1\<close>
\<close>

definition get_edit_user :: "database \<Rightarrow> session \<Rightarrow> string \<Rightarrow> response" where
  "get_edit_user db s params_id =
     (case int4_param (parseInt params_id) of
        None \<Rightarrow> Redirect ''/manage-users''
      | Some uid \<Rightarrow>
          (case filter (\<lambda>u. user_id u = uid) (User db) of
             [] \<Rightarrow> Redirect ''/manage-users''
           | u # _ \<Rightarrow>
               Render ''edit-user''
                 [(''username'', VText (s_username s)), (''user'', VRow (Some (user_columns u)))]))"

definition post_edit_user ::
  "database \<Rightarrow> session \<Rightarrow> string \<Rightarrow> body \<Rightarrow> response \<times> database" where
  "post_edit_user db s params_id b =
     (case update_user db (b_username b) (b_email b) (b_first_name b) (b_last_name b)
             (b_permissions b) (parseInt params_id) of
        Rejected \<Rightarrow> (Redirect ''/manage-users'', db)
      | Resolved db' \<Rightarrow> (Redirect ''/manage-users'', db'))"

definition post_delete_user :: "database \<Rightarrow> session \<Rightarrow> string \<Rightarrow> response \<times> database" where
  "post_delete_user db s params_id =
     (let uid = parseInt params_id in
      if uid = Some (userId s) then (Send 400 ''You cannot delete your own account'', db)
      else
        (case delete_user db uid of
           Rejected \<Rightarrow> (Redirect ''/manage-users'', db)
         | Resolved db' \<Rightarrow> (Redirect ''/manage-users'', db')))"

text \<open>
  \<open>requireManager\<close>: the route's handler runs for a session whose \<open>permissions\<close> is
  \<open>'M'\<close>, every other session gets the 403.
\<close>

definition requireManager ::
  "session \<Rightarrow> database \<Rightarrow> response \<times> database \<Rightarrow> response \<times> database" where
  "requireManager s db next_handler =
     (if s_permissions s = Some ''M'' then next_handler
      else (Send 403 ''Access denied. Manager permissions required.'', db))"

section \<open>The application\<close>

text \<open>
  A request no route matches is answered by Express with status 404; the text of that
  answer is not modelled.
\<close>

definition not_found :: "request \<Rightarrow> response" where
  "not_found req = Send 404 ''Not Found''"

definition openPaths :: "string list" where
  "openPaths = [''/'', ''/login'', ''/logout'']"

text \<open>
  The routes behind the authentication middleware, for a session that is logged in. The
  login, the root and the logout route are among them: the router matches \<open>/Login\<close>,
  which is not an open path.
\<close>

definition keep :: "session \<Rightarrow> response \<times> database \<Rightarrow> response \<times> database \<times> session option" where
  "keep s rd = (fst rd, snd rd, Some s)"

definition routes ::
  "database \<Rightarrow> timestamp \<Rightarrow> session \<Rightarrow> request \<Rightarrow> response \<times> database \<times> session option" where
  "routes db now s req =
     (let b = req_body req in
      case req_route req of
        GetRoot \<Rightarrow> (Render ''login'' [(''error_message'', VText None)], db, Some s)
      | PostLogin \<Rightarrow> post_login db now (Some s) (b_username b) (b_password b)
      | GetLogout \<Rightarrow> (Redirect ''/'', db, None)
      | GetDashboard \<Rightarrow> keep s (get_dashboard db s, db)
      | GetSearch \<Rightarrow> keep s (get_search db s (query_q req), db)
      | GetAdd \<Rightarrow> keep s (Render ''add-project'' [(''username'', VText (s_username s))], db)
      | PostAdd \<Rightarrow> keep s (post_add db s b)
      | GetEdit i \<Rightarrow> keep s (get_edit db s i, db)
      | PostEdit i \<Rightarrow> keep s (post_edit db s now i b)
      | PostDelete i \<Rightarrow> keep s (post_delete db s i)
      | GetLogWords i \<Rightarrow> keep s (get_log_words db s i, db)
      | PostLogWords i \<Rightarrow> keep s (post_log_words db s now i (b_text b) (manual_count b))
      | GetStats \<Rightarrow> keep s (get_stats db s, db)
      | GetManageUsers \<Rightarrow> keep s (requireManager s db (get_manage_users db s, db))
      | GetEditUser i \<Rightarrow> keep s (requireManager s db (get_edit_user db s i, db))
      | PostEditUser i \<Rightarrow> keep s (requireManager s db (post_edit_user db s i b))
      | PostDeleteUser i \<Rightarrow> keep s (requireManager s db (post_delete_user db s i))
      | NoRoute \<Rightarrow> keep s (not_found req, db))"

text \<open>
  The three open paths, which the middleware lets through without a login. Each of them
  is the path of one route only, and none of these three handlers reads the session.
\<close>

definition open_routes ::
  "database \<Rightarrow> timestamp \<Rightarrow> session option \<Rightarrow> request
     \<Rightarrow> response \<times> database \<times> session option" where
  "open_routes db now sess req =
     (if req_path req = ''/'' \<and> req_route req = GetRoot then
        (Render ''login'' [(''error_message'', VText None)], db, sess)
      else if req_path req = ''/login'' \<and> req_route req = PostLogin then
        post_login db now sess (b_username (req_body req)) (b_password (req_body req))
      else if req_path req = ''/logout'' \<and> req_route req = GetLogout then
        (Redirect ''/'', db, None)
      else (not_found req, db, sess))"

text \<open>
  The authentication middleware in front of the routes: an open path goes on to its
  route, a logged-in session (one that holds the fields of a login) goes on, everything
  else is answered with the login view. The static files that \<open>express.static\<close> serves
  ahead of the middleware are not part of the model.
\<close>

definition app ::
  "database \<Rightarrow> timestamp \<Rightarrow> session option \<Rightarrow> request
     \<Rightarrow> response \<times> database \<times> session option" where
  "app db now sess req =
     (if req_path req \<in> set openPaths then open_routes db now sess req
      else
        (case sess of
           Some s \<Rightarrow> routes db now s req
         | None \<Rightarrow>
             (Render ''login''
                [(''error_message'', VText (Some ''Please log in to access this page''))],
              db, sess)))"

section \<open>Notions of the specification\<close>

text \<open>
  The history of a project: its entries ordered by timestamp, oldest first.
\<close>

definition entries :: "database \<Rightarrow> int \<Rightarrow> progress_row list" where
  "entries db pid = filter (\<lambda>l. l_project_id l = pid) (ProgressLog db)"

definition history :: "database \<Rightarrow> int \<Rightarrow> progress_row list" where
  "history db pid = sort_key log_date (entries db pid)"

text \<open>
  The ledger rule, in the specification's words: each entry's running total is the
  previous entry's running total plus its own delta, and the first entry's total is its
  own delta. \<open>running_from t es\<close> checks the entries \<open>es\<close> that follow a total \<open>t\<close>.
\<close>

fun running_from :: "int \<Rightarrow> progress_row list \<Rightarrow> bool" where
  "running_from t [] = True"
| "running_from t (e # es) = (total_words e = t + word_count e \<and> running_from (total_words e) es)"

definition ledger_consistent :: "database \<Rightarrow> int \<Rightarrow> bool" where
  "ledger_consistent db pid = running_from 0 (history db pid)"

text \<open>
  The white-space-separated tokens of a text, in the specification's words: its maximal
  runs of characters that are not white space.
\<close>

function tokens :: "string \<Rightarrow> string list" where
  "tokens s =
     (case dropWhile isWhiteSpace s of
        [] \<Rightarrow> []
      | c # cs \<Rightarrow>
          (c # takeWhile (\<lambda>x. \<not> isWhiteSpace x) cs)
            # tokens (dropWhile (\<lambda>x. \<not> isWhiteSpace x) cs))"
  by pat_completeness auto
termination
proof (relation "measure length")
  show "wf (measure length)" by simp
next
  fix s :: string and c cs
  assume d: "dropWhile isWhiteSpace s = c # cs"
  have "length (dropWhile (\<lambda>x. \<not> isWhiteSpace x) cs) \<le> length cs"
    by (rule length_dropWhile_le)
  moreover have "length (c # cs) \<le> length s"
    unfolding d [symmetric] by (rule length_dropWhile_le)
  ultimately show "(dropWhile (\<lambda>x. \<not> isWhiteSpace x) cs, s) \<in> measure length"
    by simp
qed

declare tokens.simps [simp del]

text \<open>
  A run of word-logging submissions to one project by one session, each with the time
  at which it is handled.
\<close>

fun log_words_seq ::
  "database \<Rightarrow> session \<Rightarrow> string \<Rightarrow> (timestamp \<times> string option \<times> string option) list
     \<Rightarrow> database" where
  "log_words_seq db s params_id [] = db"
| "log_words_seq db s params_id ((now, text_field, manual) # rs) =
     log_words_seq (snd (post_log_words db s now params_id text_field manual)) s params_id rs"

text \<open>
  The states the application can reach: it starts with users and no project, and every
  request, at any time and with any session, leads from a reachable state to a
  reachable state.
\<close>

definition initial :: "database \<Rightarrow> bool" where
  "initial db \<longleftrightarrow> Project db = [] \<and> Goal db = [] \<and> ProgressLog db = []"

inductive reachable :: "database \<Rightarrow> bool" where
  start: "initial db \<Longrightarrow> reachable db"
| request: "reachable db \<Longrightarrow> app db now sess req = (res, db', sess') \<Longrightarrow> reachable db'"


subsection \<open>Example data\<close>

definition no_body :: body where
  "no_body =
     \<lparr>b_username = None, b_password = None, b_title = None, b_genre = None,
      b_description = None, targetWords = None, currentWords = None, dailyGoal = None,
      startDate = 0, b_text = None, manual_count = None, b_email = None,
      b_first_name = None, b_last_name = None, b_permissions = None\<rparr>"

definition alice :: user_row where
  "alice = \<lparr>user_id = 1, username = Some ''alice'', email = Some ''alice@example.org'',
            first_name = Some ''Alice'', last_name = Some ''A'', permissions = Some ''M'',
            created_at = 0\<rparr>"

definition bob :: user_row where
  "bob = \<lparr>user_id = 2, username = Some ''bob'', email = Some ''bob@example.org'',
          first_name = Some ''Bob'', last_name = Some ''B'', permissions = Some ''U'',
          created_at = 1\<rparr>"

definition db0 :: database where
  "db0 = \<lparr>User = [alice, bob],
          Security = [\<lparr>s_user_id = 1, password_text = ''secret'', last_login = None\<rparr>,
                      \<lparr>s_user_id = 2, password_text = ''hunter2'', last_login = None\<rparr>],
          Project = [], Goal = [], ProgressLog = [], project_id_seq = 1,
          goal_id_seq = 1\<rparr>"

definition alice_session :: session where
  "alice_session = \<lparr>s_username = Some ''alice'', userId = 1, firstName = Some ''Alice'',
                    s_permissions = Some ''M''\<rparr>"

definition bob_session :: session where
  "bob_session = \<lparr>s_username = Some ''bob'', userId = 2, firstName = Some ''Bob'',
                  s_permissions = Some ''U''\<rparr>"

text \<open>
  Alice's project of the specification's scenario: target 10000, daily goal 500, no words
  yet, started at time 5.
\<close>

definition novel_form :: body where
  "novel_form = no_body\<lparr>b_title := Some ''Novel'', b_genre := Some ''Fiction'',
                         targetWords := Some ''10000'', dailyGoal := Some ''500'',
                         currentWords := Some ''0'', startDate := 5\<rparr>"

definition db1 :: database where
  "db1 = snd (post_add db0 alice_session novel_form)"

definition future_form :: body where
  "future_form = novel_form\<lparr>currentWords := Some ''100'', startDate := 50\<rparr>"

definition db_future :: database where
  "db_future =
     log_words_seq (snd (post_add db0 alice_session future_form)) alice_session ''1''
       [(11, None, Some ''5''), (12, None, Some ''7'')]"

definition db_logged :: database where
  "db_logged =
     log_words_seq db1 alice_session ''1''
       [(10, Some ''one two three'', None), (11, None, Some ''47'')]"

section \<open>Properties of the string functions\<close>

text \<open>
  The split of a trimmed, non-blank text yields exactly its tokens: the handler's
  \<open>text.trim().split(/\s+/).length\<close> counts the white-space-separated tokens.
\<close>

lemma split_ws_not_Nil: "split_ws s \<noteq> []"
  by (subst split_ws.simps) (simp split: list.splits)

lemma split_ws_single:
  "dropWhile (\<lambda>c. \<not> isWhiteSpace c) s = [] \<Longrightarrow> split_ws s = [s]"
  by (subst split_ws.simps) (simp only: list.case)

lemma split_ws_step:
  "dropWhile (\<lambda>c. \<not> isWhiteSpace c) s = d # ds \<Longrightarrow>
   split_ws s = takeWhile (\<lambda>c. \<not> isWhiteSpace c) s # split_ws (dropWhile isWhiteSpace ds)"
  by (subst split_ws.simps) (simp only: list.case)

lemma tokens_none: "dropWhile isWhiteSpace s = [] \<Longrightarrow> tokens s = []"
  by (subst tokens.simps) (simp only: list.case)

lemma tokens_step:
  "dropWhile isWhiteSpace s = c # cs \<Longrightarrow>
   tokens s = (c # takeWhile (\<lambda>x. \<not> isWhiteSpace x) cs)
                # tokens (dropWhile (\<lambda>x. \<not> isWhiteSpace x) cs)"
  by (subst tokens.simps) (simp only: list.case)

lemma tokens_dropWhile: "tokens (dropWhile isWhiteSpace s) = tokens s"
proof (cases "dropWhile isWhiteSpace s")
  case Nil
  then show ?thesis by (simp add: tokens_none)
next
  case (Cons c cs)
  have "dropWhile isWhiteSpace (c # cs) = c # cs"
    unfolding Cons [symmetric] by simp
  then show ?thesis using Cons by (simp only: tokens_step [OF Cons] tokens_step)
qed

lemma tokens_nonws_Cons:
  "\<not> isWhiteSpace c \<Longrightarrow>
   tokens (c # s) = (c # takeWhile (\<lambda>x. \<not> isWhiteSpace x) s) # tokens (dropWhile (\<lambda>x. \<not> isWhiteSpace x) s)"
  by (rule tokens_step) simp

lemma split_ws_eq_tokens:
  "s \<noteq> [] \<Longrightarrow> \<not> isWhiteSpace (hd s) \<Longrightarrow> \<not> isWhiteSpace (last s) \<Longrightarrow> split_ws s = tokens s"
proof (induction s rule: split_ws.induct)
  case (1 s)
  from "1.prems" obtain c cs where s: "s = c # cs" and c: "\<not> isWhiteSpace c"
    by (cases s) auto
  show ?case
  proof (cases "dropWhile (\<lambda>c. \<not> isWhiteSpace c) s")
    case Nil
    then have "\<forall>x \<in> set s. \<not> isWhiteSpace x" by simp
    then have tw: "takeWhile (\<lambda>x. \<not> isWhiteSpace x) cs = cs" "dropWhile (\<lambda>x. \<not> isWhiteSpace x) cs = []"
      by (simp_all add: s)
    have "split_ws s = [s]" using Nil by (rule split_ws_single)
    moreover have "tokens s = [s]" by (simp add: s tokens_nonws_Cons c tw tokens_none)
    ultimately show ?thesis by simp
  next
    case (Cons d ds)
    have dws: "isWhiteSpace d" using Cons by (metis hd_dropWhile list.distinct(1) list.sel(1))
    let ?r = "dropWhile isWhiteSpace ds"
    have sdec: "s = takeWhile (\<lambda>c. \<not> isWhiteSpace c) s @ d # ds"
      using Cons by (metis takeWhile_dropWhile_id)
    have lastr: "last s = last (d # ds)" using sdec by (metis last_appendR list.distinct(1))
    have rne: "?r \<noteq> []"
    proof
      assume "?r = []"
      then have "\<forall>x \<in> set ds. isWhiteSpace x" by simp
      then have "isWhiteSpace (last (d # ds))" using dws by (cases ds) auto
      with lastr "1.prems"(3) show False by simp
    qed
    have hdr: "\<not> isWhiteSpace (hd ?r)" using rne by (rule hd_dropWhile)
    have "ds = takeWhile isWhiteSpace ds @ ?r" by simp
    then have "last ds = last ?r" using rne by (metis last_appendR)
    moreover have "ds \<noteq> []" using rne by auto
    ultimately have "last ?r = last (d # ds)" by simp
    then have lr: "\<not> isWhiteSpace (last ?r)" using lastr "1.prems"(3) by simp
    have IH: "split_ws ?r = tokens ?r" using "1.IH" [OF Cons rne hdr lr] .
    have "split_ws s = takeWhile (\<lambda>c. \<not> isWhiteSpace c) s # split_ws ?r"
      using Cons by (rule split_ws_step)
    moreover have "tokens s = takeWhile (\<lambda>c. \<not> isWhiteSpace c) s # tokens (dropWhile (\<lambda>x. \<not> isWhiteSpace x) cs)"
      by (simp add: s tokens_nonws_Cons c)
    moreover have "dropWhile (\<lambda>x. \<not> isWhiteSpace x) cs = d # ds" using Cons by (simp add: s c)
    moreover have "tokens (d # ds) = tokens ?r"
      using tokens_dropWhile [of "d # ds"] dws tokens_dropWhile [of ds] by simp
    ultimately show ?thesis using IH by simp
  qed
qed

lemma tokens_append_ws: "\<forall>x \<in> set w. isWhiteSpace x \<Longrightarrow> tokens (s @ w) = tokens s"
proof (induction s rule: tokens.induct)
  case (1 s)
  show ?case
  proof (cases "dropWhile isWhiteSpace s")
    case Nil
    then have "\<forall>x \<in> set s. isWhiteSpace x" by simp
    with 1(2) have "dropWhile isWhiteSpace (s @ w) = []" by auto
    then have "tokens (s @ w) = []" by (rule tokens_none)
    moreover have "tokens s = []" using Nil by (rule tokens_none)
    ultimately show ?thesis by simp
  next
    case (Cons c cs)
    have ex: "\<exists>x \<in> set s. \<not> isWhiteSpace x" using Cons by (metis dropWhile_eq_Nil_conv list.distinct(1))
    then have d: "dropWhile isWhiteSpace (s @ w) = c # (cs @ w)"
      using Cons by auto
    let ?n = "\<lambda>x. \<not> isWhiteSpace x"
    show ?thesis
    proof (cases "dropWhile ?n cs")
      case Nil
      then have allc: "\<forall>x \<in> set cs. ?n x" by simp
      have tw: "takeWhile ?n w = []" using 1(2) by (cases w) auto
      have dw: "dropWhile ?n w = w" using 1(2) by (cases w) auto
      have "dropWhile isWhiteSpace w = []" using 1(2) by simp
      then have kw: "tokens w = []" by (rule tokens_none)
      have tc: "takeWhile ?n cs = cs" using allc by simp
      have t: "takeWhile ?n (cs @ w) = takeWhile ?n cs"
        using allc by (simp add: tw tc)
      have "dropWhile ?n (cs @ w) = w" using allc by (simp add: dw)
      then have dd: "tokens (dropWhile ?n (cs @ w)) = tokens (dropWhile ?n cs)"
        by (simp only: kw Nil tokens_none [of "[]", OF dropWhile.simps(1)])
      show ?thesis
        by (simp only: tokens_step [OF d] tokens_step [OF \<open>dropWhile isWhiteSpace s = c # cs\<close>] t dd)
    next
      case (Cons e es)
      note Cons2 = this
      then have exc: "\<exists>x \<in> set cs. \<not> ?n x" by (metis dropWhile_eq_Nil_conv list.distinct(1))
      have t1: "takeWhile ?n (cs @ w) = takeWhile ?n cs" using exc by auto
      have d1: "dropWhile ?n (cs @ w) = dropWhile ?n cs @ w" using exc by auto
      have "tokens (dropWhile ?n cs @ w) = tokens (dropWhile ?n cs)"
        using "1.IH" [OF \<open>dropWhile isWhiteSpace s = c # cs\<close> 1(2)] .
      then show ?thesis
        by (simp add: tokens_step [OF d] tokens_step [OF \<open>dropWhile isWhiteSpace s = c # cs\<close>] t1 d1)
    qed
  qed
qed

lemma trim_decomp:
  "\<exists>w. (\<forall>x \<in> set w. isWhiteSpace x) \<and> dropWhile isWhiteSpace s = trim s @ w"
proof -
  let ?d = "dropWhile isWhiteSpace s"
  have "rev ?d = takeWhile isWhiteSpace (rev ?d) @ dropWhile isWhiteSpace (rev ?d)" by simp
  then have "?d = rev (dropWhile isWhiteSpace (rev ?d)) @ rev (takeWhile isWhiteSpace (rev ?d))"
    by (metis rev_append rev_rev_ident)
  moreover have "\<forall>x \<in> set (rev (takeWhile isWhiteSpace (rev ?d))). isWhiteSpace x"
    by (auto dest: set_takeWhileD)
  ultimately show ?thesis unfolding trim_def by blast
qed

lemma tokens_trim: "tokens (trim s) = tokens s"
proof -
  obtain w where w: "\<forall>x \<in> set w. isWhiteSpace x" "dropWhile isWhiteSpace s = trim s @ w"
    using trim_decomp by blast
  have "tokens s = tokens (trim s @ w)" using w(2) tokens_dropWhile [of s] by simp
  then show ?thesis using tokens_append_ws [OF w(1)] by simp
qed

lemma trim_ends:
  assumes "trim s \<noteq> []"
  shows "\<not> isWhiteSpace (hd (trim s))" and "\<not> isWhiteSpace (last (trim s))"
proof -
  let ?d = "dropWhile isWhiteSpace s"
  let ?e = "dropWhile isWhiteSpace (rev ?d)"
  have e: "?e \<noteq> []" using assms by (simp add: trim_def)
  have "\<not> isWhiteSpace (hd ?e)" using e by (rule hd_dropWhile)
  then show "\<not> isWhiteSpace (last (trim s))" using e by (simp add: trim_def last_rev)
  have dne: "?d \<noteq> []"
  proof
    assume "?d = []"
    then have "?e = []" by (simp only: rev.simps dropWhile.simps)
    with e show False by simp
  qed
  have hd: "\<not> isWhiteSpace (hd ?d)" using dne by (rule hd_dropWhile)
  obtain w where w: "?d = trim s @ w" using trim_decomp by blast
  then have "hd ?d = hd (trim s)" using assms by (metis hd_append2)
  then show "\<not> isWhiteSpace (hd (trim s))" using hd by simp
qed

lemma split_ws_trim: "trim t \<noteq> [] \<Longrightarrow> split_ws (trim t) = tokens t"
  using split_ws_eq_tokens [of "trim t"] trim_ends [of t] tokens_trim [of t] by simp

lemma tokens_Nil_iff: "tokens t = [] \<longleftrightarrow> trim t = []"
proof
  assume "tokens t = []"
  show "trim t = []"
  proof (rule ccontr)
    assume "trim t \<noteq> []"
    then have "split_ws (trim t) = tokens t" by (rule split_ws_trim)
    with \<open>tokens t = []\<close> split_ws_not_Nil show False by metis
  qed
next
  assume "trim t = []"
  then have "tokens (trim t) = []" by (simp add: tokens_none)
  then show "tokens t = []" by (simp add: tokens_trim)
qed

text \<open>
  The derived word count is zero exactly for a manual count that is not positive
  together with a text that is absent or blank.
\<close>

lemma wordCount_zero_iff:
  "wordCount text_field manual = 0 \<longleftrightarrow>
     \<not> positive (parseIntField manual) \<and> (case text_field of None \<Rightarrow> True | Some t \<Rightarrow> trim t = [])"
  by (auto simp: wordCount_def positive_def parseIntField_def parseInt_def trimStart_def trim_def split_ws_not_Nil
           split: option.splits)

lemma wordCount_text:
  "\<not> positive (parseIntField manual) \<Longrightarrow> wordCount (Some t) manual = int (length (tokens t))"
proof -
  assume m: "\<not> positive (parseIntField manual)"
  have "wordCount (Some t) manual = (if trim t \<noteq> [] then int (length (split_ws (trim t))) else 0)"
    using m by (auto simp: wordCount_def parseIntField_def trim_def split: option.splits)
  then show ?thesis
    using split_ws_trim [of t] tokens_Nil_iff [of t] by (cases "trim t = []") simp_all
qed

lemmas parse_defs = parseInt_def trimStart_def isWhiteSpace_def parseUnsigned_def parseDigits_def
  isRadixDigit_def digitValue_def digitsValue_def

lemma parse_examples:
  "parseInt ''1'' = Some 1" "parseInt ''10000'' = Some 10000" "parseInt ''500'' = Some 500"
  "parseInt ''0'' = Some 0" "parseInt ''-5'' = Some (- 5)" "parseInt ''100'' = Some 100"
  "parseInt ''5'' = Some 5" "parseInt ''7'' = Some 7" "parseInt ''47'' = Some 47"
  "parseInt ''40'' = Some 40" "parseInt ''3'' = Some 3"
  "parseInt ''3000000000'' = Some 3000000000" "parseInt ''abc'' = None"
  by (simp_all add: parse_defs)

section \<open>Properties of the progress log\<close>

lemma int4_param_Some: "int4_param p = Some n \<longleftrightarrow> p = Some n \<and> in_int4 n"
  by (auto simp: int4_param_def split: option.splits)

lemma int4_param_in: "in_int4 n \<Longrightarrow> int4_param (Some n) = Some n"
  by (simp add: int4_param_def)

lemma int4_param_out: "\<not> in_int4 n \<Longrightarrow> int4_param (Some n) = None"
  by (simp add: int4_param_def)

lemma wordCount_nonneg: "0 \<le> wordCount text_field manual"
  by (auto simp: wordCount_def positive_def split: option.splits)

lemma latest_append:
  "\<forall>r \<in> set rs. log_date r < log_date x \<Longrightarrow> order_by_log_date_desc_limit_1 (rs @ [x]) = Some x"
  by (induction rs) auto

lemma latest_None_iff: "order_by_log_date_desc_limit_1 rs = None \<longleftrightarrow> rs = []"
  by (cases rs) (auto split: option.splits)

lemma lastLog_rows_entries: "lastLog_rows db pid = order_by_log_date_desc_limit_1 (entries db pid)"
  by (simp add: lastLog_rows_def entries_def)

lemma recordWords_eq:
  "int4_param projectId = Some pid \<Longrightarrow>
   recordWords db projectId wc now =
     (if in_int4 wc \<and> in_int4 (current_total db pid + wc)
      then Resolved (current_total db pid + wc,
             db\<lparr>ProgressLog := ProgressLog db @
               [\<lparr>l_project_id = pid, word_count = wc,
                 total_words = current_total db pid + wc, log_date = now\<rparr>]\<rparr>)
      else Rejected)"
  by (simp add: recordWords_def select_lastLog_def insert_progress_def current_total_def Let_def
      int4_param_def)

lemma recordWords_bad_id:
  "int4_param projectId = None \<Longrightarrow> recordWords db projectId wc now = Rejected"
  by (simp add: recordWords_def select_lastLog_def)

lemma post_log_words_eq:
  "int4_param (parseInt i) = Some pid \<Longrightarrow>
   snd (post_log_words db s now i text_field manual) =
     (if wordCount text_field manual \<noteq> 0 \<and> in_int4 (wordCount text_field manual) \<and>
         in_int4 (current_total db pid + wordCount text_field manual)
      then db\<lparr>ProgressLog := ProgressLog db @
         [\<lparr>l_project_id = pid, word_count = wordCount text_field manual,
           total_words = current_total db pid + wordCount text_field manual,
           log_date = now\<rparr>]\<rparr>
      else db)"
  by (simp add: post_log_words_def recordWords_eq select_log_words_def Let_def
      split: option.splits)

lemma post_log_words_bad_id:
  "int4_param (parseInt i) = None \<Longrightarrow> snd (post_log_words db s now i text_field manual) = db"
  by (simp add: post_log_words_def recordWords_bad_id select_log_words_def Let_def)

lemma post_log_words_zero_unchanged:
  "wordCount text_field manual = 0 \<Longrightarrow> snd (post_log_words db s now i text_field manual) = db"
  by (simp add: post_log_words_def select_log_words_def split: option.splits)

lemma entries_append:
  "entries (db\<lparr>ProgressLog := ProgressLog db @ [e]\<rparr>) pid =
     (if l_project_id e = pid then entries db pid @ [e] else entries db pid)"
  by (simp add: entries_def)

lemma current_total_append:
  "\<forall>r \<in> set (entries db pid). log_date r < log_date e \<Longrightarrow> l_project_id e = pid \<Longrightarrow>
   current_total (db\<lparr>ProgressLog := ProgressLog db @ [e]\<rparr>) pid = total_words e"
  by (simp add: current_total_def lastLog_rows_entries entries_append latest_append)

lemma current_total_cong:
  "ProgressLog db' = ProgressLog db \<Longrightarrow> current_total db' pid = current_total db pid"
  by (simp add: current_total_def lastLog_rows_def)

lemma entries_cong:
  "ProgressLog db' = ProgressLog db \<Longrightarrow> entries db' pid = entries db pid"
  by (simp add: entries_def)

lemma current_total_no_entries: "entries db pid = [] \<Longrightarrow> current_total db pid = 0"
  by (simp add: current_total_def lastLog_rows_entries)

lemma setAbsoluteTotal_eq:
  assumes "int4_param projectId = Some pid"
  shows "setAbsoluteTotal db projectId (Some N) now =
     (if N = current_total db pid \<or> (entries db pid = [] \<and> N \<le> 0) then Resolved db
      else if in_int4 N \<and> in_int4 (N - current_total db pid)
      then Resolved (db\<lparr>ProgressLog := ProgressLog db @
                 [\<lparr>l_project_id = pid, word_count = N - current_total db pid, total_words = N,
                   log_date = now\<rparr>]\<rparr>)
      else Rejected)"
proof (cases "entries db pid")
  case Nil
  then have "lastLog_rows db pid = None" by (simp add: lastLog_rows_entries)
  then show ?thesis
    using Nil assms
    by (auto simp: setAbsoluteTotal_def select_lastLog_def current_total_def positive_def
        insert_progress_def int4_param_def)
next
  case (Cons e es)
  then obtain l where l: "lastLog_rows db pid = Some l"
    using latest_None_iff [of "entries db pid"] by (auto simp: lastLog_rows_entries)
  then show ?thesis
    using Cons assms
    by (auto simp: setAbsoluteTotal_def select_lastLog_def current_total_def
        insert_progress_def int4_param_def)
qed

text \<open>
  The edit handler reaches its last part when the two updates before it are accepted:
  the project identifier, the session's user identifier, the target and the daily goal
  are numbers of the integer range.
\<close>

lemma post_edit_rejected_early:
  assumes "int4_param (parseInt i) = None \<or> \<not> in_int4 (userId s) \<or>
           int4_param (parseIntField (targetWords b)) = None \<or>
           \<not> in_int4 (or_1000 (parseIntField (dailyGoal b)))"
  shows "ProgressLog (snd (post_edit db s now i b)) = ProgressLog db"
proof (cases "update_project db (b_title b) (b_genre b) (or_null (b_description b))
                (startDate b) (parseInt i) (userId s)")
  case Rejected
  then show ?thesis by (simp add: post_edit_def)
next
  case (Resolved db1)
  then have l1: "ProgressLog db1 = ProgressLog db" and ok: "int4_param (parseInt i) \<noteq> None"
    "in_int4 (userId s)"
    by (auto simp: update_project_def int4_param_def split: option.splits if_splits)
  have "update_goal db1 (parseIntField (targetWords b))
          (or_1000 (parseIntField (dailyGoal b))) (parseInt i) = Rejected"
    using assms ok by (auto simp: update_goal_def int4_param_def split: option.splits)
  then show ?thesis by (simp add: post_edit_def Resolved l1)
qed

lemma post_edit_log:
  assumes "int4_param (parseInt i) = Some pid" and "in_int4 (userId s)"
    and "int4_param (parseIntField (targetWords b)) = Some t"
    and "in_int4 (or_1000 (parseIntField (dailyGoal b)))"
    and "parseIntField (currentWords b) = Some N"
  shows "\<exists>db2. ProgressLog db2 = ProgressLog db \<and>
           snd (post_edit db s now i b) =
             (if N \<noteq> current_total db pid \<and> \<not> (entries db pid = [] \<and> N \<le> 0) \<and>
                 in_int4 N \<and> in_int4 (N - current_total db pid)
              then db2\<lparr>ProgressLog := ProgressLog db2 @
                 [\<lparr>l_project_id = pid, word_count = N - current_total db pid, total_words = N,
                   log_date = now\<rparr>]\<rparr>
              else db2)"
proof -
  obtain db1 where 1: "update_project db (b_title b) (b_genre b) (or_null (b_description b))
             (startDate b) (parseInt i) (userId s) = Resolved db1"
    and l1: "ProgressLog db1 = ProgressLog db"
    using assms(1,2) by (simp add: update_project_def int4_param_in)
  obtain db2 where 2: "update_goal db1 (parseIntField (targetWords b))
            (or_1000 (parseIntField (dailyGoal b))) (parseInt i) = Resolved db2"
    and l2: "ProgressLog db2 = ProgressLog db1"
    using assms(1,3,4) by (simp add: update_goal_def int4_param_in)
  have l: "ProgressLog db2 = ProgressLog db" using l1 l2 by simp
  have "snd (post_edit db s now i b) =
          (if N \<noteq> current_total db2 pid \<and> \<not> (entries db2 pid = [] \<and> N \<le> 0) \<and>
                 in_int4 N \<and> in_int4 (N - current_total db2 pid)
              then db2\<lparr>ProgressLog := ProgressLog db2 @
                 [\<lparr>l_project_id = pid, word_count = N - current_total db2 pid,
                   total_words = N, log_date = now\<rparr>]\<rparr>
              else db2)"
    using assms(5) by (auto simp: post_edit_def 1 2 setAbsoluteTotal_eq [OF assms(1)])
  then show ?thesis using l by (auto simp: current_total_cong [OF l] entries_cong [OF l])
qed

lemma log_words_seq_total:
  "int4_param (parseInt i) = Some pid \<Longrightarrow>
   \<forall>e \<in> set (entries db pid). \<forall>r \<in> set rs. log_date e < fst r \<Longrightarrow>
   sorted_wrt (<) (map fst rs) \<Longrightarrow>
   0 \<le> current_total db pid \<Longrightarrow>
   current_total db pid +
     sum_list (map (\<lambda>(now, text_field, manual). wordCount text_field manual) rs) \<le> 2147483647 \<Longrightarrow>
   current_total (log_words_seq db s i rs) pid =
     current_total db pid +
       sum_list (map (\<lambda>(now, text_field, manual). wordCount text_field manual) rs)"
proof (induction rs arbitrary: db)
  case Nil
  then show ?case by simp
next
  case (Cons r rs)
  obtain now t m where r: "r = (now, t, m)" by (cases r) auto
  let ?db' = "snd (post_log_words db s now i t m)"
  let ?wc = "wordCount t m"
  let ?rest = "sum_list (map (\<lambda>(now, text_field, manual). wordCount text_field manual) rs)"
  have wc0: "0 \<le> ?wc" by (rule wordCount_nonneg)
  have rest0: "0 \<le> ?rest" by (rule sum_list_nonneg) (auto simp: wordCount_nonneg)
  have bound: "current_total db pid + ?wc + ?rest \<le> 2147483647"
    using Cons.prems(5) by (simp add: r)
  have rng: "in_int4 ?wc" "in_int4 (current_total db pid + ?wc)"
    using wc0 rest0 bound Cons.prems(4) by (simp_all add: in_int4_def)
  have old: "\<forall>e \<in> set (entries db pid). log_date e < now" using Cons.prems(2) by (simp add: r)
  have later: "\<forall>x \<in> set rs. now < fst x" using Cons.prems(3) by (simp add: r)
  have db': "?db' = (if ?wc \<noteq> 0 then db\<lparr>ProgressLog := ProgressLog db @
         [\<lparr>l_project_id = pid, word_count = ?wc, total_words = current_total db pid + ?wc,
           log_date = now\<rparr>]\<rparr> else db)"
    using post_log_words_eq [OF Cons.prems(1), of db s now t m] rng by simp
  have ct: "current_total ?db' pid = current_total db pid + ?wc"
    using old by (simp add: db' current_total_append)
  have ent: "\<forall>e \<in> set (entries ?db' pid). \<forall>x \<in> set rs. log_date e < fst x"
    using Cons.prems(2) later by (auto simp: db' entries_append r)
  have "current_total (log_words_seq ?db' s i rs) pid = current_total ?db' pid + ?rest"
    using Cons.IH [OF Cons.prems(1) ent] Cons.prems(3) wc0 Cons.prems(4) bound
    by (simp add: ct)
  then show ?case by (simp add: r ct)
qed

section \<open>Reachable states\<close>

lemma app_post_add:
  "app db now (Some s)
     \<lparr>req_path = ''/add'', req_route = PostAdd, query_q = q, req_body = b\<rparr> =
   (fst (post_add db s b), snd (post_add db s b), Some s)"
  by (simp add: app_def openPaths_def routes_def keep_def)

lemma app_post_log_words:
  "app db now (Some s)
     \<lparr>req_path = ''/log-words/'' @ i, req_route = PostLogWords i, query_q = q, req_body = b\<rparr> =
   (fst (post_log_words db s now i (b_text b) (manual_count b)),
    snd (post_log_words db s now i (b_text b) (manual_count b)), Some s)"
  by (simp add: app_def openPaths_def routes_def keep_def)

lemma reachable_post_add: "reachable db \<Longrightarrow> reachable (snd (post_add db s b))"
  using reachable.request [OF _ app_post_add] by blast

lemma reachable_post_log_words:
  "reachable db \<Longrightarrow> reachable (snd (post_log_words db s now i t m))"
proof -
  assume r: "reachable db"
  let ?b = "no_body\<lparr>b_text := t, manual_count := m\<rparr>"
  have "reachable (snd (post_log_words db s now i (b_text ?b) (manual_count ?b)))"
    using r app_post_log_words [of db now s i None ?b] by (rule reachable.request)
  then show ?thesis by simp
qed

lemma reachable_log_words_seq:
  "reachable db \<Longrightarrow> reachable (log_words_seq db s i rs)"
proof (induction rs arbitrary: db)
  case Nil
  then show ?case by simp
next
  case (Cons r rs)
  obtain now t m where r: "r = (now, t, m)" by (cases r) auto
  have "reachable (snd (post_log_words db s now i t m))"
    using Cons.prems by (rule reachable_post_log_words)
  then show ?case using Cons.IH by (simp add: r)
qed

section \<open>The example states\<close>

lemma db1_eq:
  "db1 = db0\<lparr>Project := [\<lparr>project_id = 1, p_user_id = 1, title = Some ''Novel'',
                           genre = Some ''Fiction'', description = None, start_date = 5\<rparr>],
              Goal := [\<lparr>goal_id = 1, g_project_id = 1, goal_type = ''total_words'',
                        target_value = 10000, daily_target = 500, g_start_date = 5,
                        is_active = True\<rparr>],
              project_id_seq := 2, goal_id_seq := 2\<rparr>"
  by (simp add: db1_def post_add_def novel_form_def no_body_def alice_session_def db0_def
      insert_project_def insert_goal_def parseIntField_def parse_examples or_1000_def or_null_def
      positive_def int4_param_def in_int4_def)

lemma id_1: "int4_param (parseInt ''1'') = Some 1"
  by (simp add: parse_examples int4_param_def in_int4_def)

lemma db1_log: "ProgressLog db1 = []" "entries db1 1 = []" "current_total db1 1 = 0"
  by (simp_all add: db1_eq db0_def entries_def current_total_def lastLog_rows_def)

lemma reachable_db0: "reachable db0"
  by (rule reachable.start) (simp add: initial_def db0_def)

lemma reachable_db1: "reachable db1"
  unfolding db1_def using reachable_db0 by (rule reachable_post_add)

lemma db_logged_eq:
  "ProgressLog db_logged =
     [\<lparr>l_project_id = 1, word_count = 3, total_words = 3, log_date = 10\<rparr>,
      \<lparr>l_project_id = 1, word_count = 47, total_words = 50, log_date = 11\<rparr>]"
  "Goal db_logged = Goal db1" "Project db_logged = Project db1"
proof -
  have t: "tokens ''one two three'' = [''one'', ''two'', ''three'']"
    by (simp add: tokens.simps isWhiteSpace_def)
  have tr: "trim ''one two three'' \<noteq> []" by (simp add: trim_def isWhiteSpace_def)
  then have "split_ws (trim ''one two three'') = tokens ''one two three''" by (rule split_ws_trim)
  then have w: "wordCount (Some ''one two three'') None = 3" "wordCount None (Some ''47'') = 47"
    using tr by (simp_all add: wordCount_def parse_examples positive_def t)
  let ?a = "snd (post_log_words db1 alice_session 10 ''1'' (Some ''one two three'') None)"
  have a: "?a = db1\<lparr>ProgressLog := [\<lparr>l_project_id = 1, word_count = 3, total_words = 3, log_date = 10\<rparr>]\<rparr>"
    by (simp add: post_log_words_eq [OF id_1] w in_int4_def db1_log)
  let ?A = "db1\<lparr>ProgressLog := [\<lparr>l_project_id = 1, word_count = 3, total_words = 3, log_date = 10\<rparr>]\<rparr>"
  have b: "snd (post_log_words ?A alice_session 11 ''1'' None (Some ''47'')) =
        db1\<lparr>ProgressLog := [\<lparr>l_project_id = 1, word_count = 3, total_words = 3, log_date = 10\<rparr>,
         \<lparr>l_project_id = 1, word_count = 47, total_words = 50, log_date = 11\<rparr>]\<rparr>"
    by (simp add: post_log_words_eq [OF id_1] w in_int4_def current_total_def lastLog_rows_def)
  show "ProgressLog db_logged =
     [\<lparr>l_project_id = 1, word_count = 3, total_words = 3, log_date = 10\<rparr>,
      \<lparr>l_project_id = 1, word_count = 47, total_words = 50, log_date = 11\<rparr>]"
    "Goal db_logged = Goal db1" "Project db_logged = Project db1"
    by (simp_all add: db_logged_def a b)
qed

lemma db_future_eq:
  "ProgressLog db_future =
     [\<lparr>l_project_id = 1, word_count = 100, total_words = 100, log_date = 50\<rparr>,
      \<lparr>l_project_id = 1, word_count = 5, total_words = 105, log_date = 11\<rparr>,
      \<lparr>l_project_id = 1, word_count = 7, total_words = 107, log_date = 12\<rparr>]"
proof -
  let ?a = "snd (post_add db0 alice_session future_form)"
  have a: "ProgressLog ?a = [\<lparr>l_project_id = 1, word_count = 100, total_words = 100, log_date = 50\<rparr>]"
    by (simp add: post_add_def future_form_def novel_form_def no_body_def alice_session_def db0_def
      insert_project_def insert_goal_def insert_progress_def parseIntField_def parse_examples
      or_1000_def or_null_def positive_def int4_param_def in_int4_def)
  have w: "wordCount None (Some ''5'') = 5" "wordCount None (Some ''7'') = 7"
    by (simp_all add: wordCount_def parse_examples positive_def)
  let ?b = "snd (post_log_words ?a alice_session 11 ''1'' None (Some ''5''))"
  have b: "ProgressLog ?b = ProgressLog ?a @ [\<lparr>l_project_id = 1, word_count = 5, total_words = 105, log_date = 11\<rparr>]"
    by (simp add: post_log_words_eq [OF id_1] w in_int4_def current_total_def lastLog_rows_def a)
  let ?c = "snd (post_log_words ?b alice_session 12 ''1'' None (Some ''7''))"
  have c: "ProgressLog ?c = ProgressLog ?b @ [\<lparr>l_project_id = 1, word_count = 7, total_words = 107, log_date = 12\<rparr>]"
    by (simp add: post_log_words_eq [OF id_1] w in_int4_def current_total_def lastLog_rows_def a b)
  show ?thesis by (simp add: db_future_def a b c)
qed

section \<open>The goal invariant\<close>




























lemma select_login_no_user:
  "\<forall>u \<in> set (User db). username u \<noteq> un \<Longrightarrow> select_login db un = []"
  by (simp add: select_login_def filter_empty_conv)




section \<open>The claims\<close>

subsection \<open>C1: the ledger invariant\<close>

text \<open>
  Claim C1: in every reachable state the entries of a project, ordered by timestamp,
  form a consistent ledger (each running total is the previous one plus the entry's
  delta, the first total is its own delta).

  The code does not keep this. The add handler dates the initial entry with the form's
  start date, and the word-logging handler takes as previous total the entry with the
  greatest \<open>log_date\<close>. When the start date lies in the future, the initial entry stays
  the latest one and every later submission is added to its total. The state
  \<open>db_future\<close> is reached by three requests of one user: \<open>POST /add\<close> with current
  words 100 and start date 50, then \<open>POST /log-words/1\<close> with the manual count 5 at
  time 11 and with the manual count 7 at time 12. Its entries break the ledger rule in
  timestamp order and in insertion order, and the current total is 100, not 112.
\<close>

theorem ledger_broken_by_future_start_date:
  "reachable db_future \<and>
   history db_future 1 =
     [\<lparr>l_project_id = 1, word_count = 5, total_words = 105, log_date = 11\<rparr>,
      \<lparr>l_project_id = 1, word_count = 7, total_words = 107, log_date = 12\<rparr>,
      \<lparr>l_project_id = 1, word_count = 100, total_words = 100, log_date = 50\<rparr>] \<and>
   \<not> ledger_consistent db_future 1 \<and>
   \<not> running_from 0 (entries db_future 1) \<and>
   \<not> sorted (map log_date (entries db_future 1)) \<and>
   current_total db_future 1 = 100"
proof -
  have r: "reachable db_future"
    unfolding db_future_def
    by (intro reachable_log_words_seq reachable_post_add reachable_db0)
  have h: "history db_future 1 =
     [\<lparr>l_project_id = 1, word_count = 5, total_words = 105, log_date = 11\<rparr>,
      \<lparr>l_project_id = 1, word_count = 7, total_words = 107, log_date = 12\<rparr>,
      \<lparr>l_project_id = 1, word_count = 100, total_words = 100, log_date = 50\<rparr>]"
    by (simp add: history_def entries_def db_future_eq)
  have l: "\<not> ledger_consistent db_future 1"
    by (simp add: ledger_consistent_def h)
  have c: "current_total db_future 1 = 100"
    by (simp add: current_total_def lastLog_rows_def db_future_eq)
  have i: "\<not> running_from 0 (entries db_future 1)"
    by (simp add: entries_def db_future_eq)
  have o: "\<not> sorted (map log_date (entries db_future 1))"
    by (simp add: entries_def db_future_eq)
  show ?thesis using r h l i o c by blast
qed

subsection \<open>C2: ownership\<close>

text \<open>
  Claim C2: no request of a user reads, changes or deletes the project, goal or log rows
  of another user's project.

  The code does not keep this. The delete handler removes the log entries and the goals
  of the project identifier in the path with no ownership condition, and only its last
  statement, on the project row, names the session's user; the word-logging handler
  inserts for any project identifier. In \<open>db_logged\<close> project 1 belongs to user 1
  (Alice) and has one active goal and two log entries. User 2 (Bob) posts
  \<open>/delete/1\<close>: the goal and the entries are gone. Bob posts \<open>/log-words/1\<close> with the
  manual count 5: Alice's log has a third entry.
\<close>

theorem other_user_removes_goal_and_log:
  "reachable db_logged \<and>
   map p_user_id (filter (\<lambda>p. project_id p = 1) (Project db_logged)) = [1] \<and>
   userId bob_session = 2 \<and>
   length (entries db_logged 1) = 2 \<and> length (active_goals db_logged 1) = 1 \<and>
   entries (snd (post_delete db_logged bob_session ''1'')) 1 = [] \<and>
   active_goals (snd (post_delete db_logged bob_session ''1'')) 1 = [] \<and>
   entries (snd (post_log_words db_logged bob_session 20 ''1'' None (Some ''5''))) 1 =
     entries db_logged 1 @ [\<lparr>l_project_id = 1, word_count = 5, total_words = 55, log_date = 20\<rparr>]"
proof -
  have r: "reachable db_logged"
    unfolding db_logged_def
    by (intro reachable_log_words_seq reachable_db1)
  have p: "map p_user_id (filter (\<lambda>p. project_id p = 1) (Project db_logged)) = [1]"
    by (simp add: db_logged_eq db1_eq db0_def)
  have e: "length (entries db_logged 1) = 2" by (simp add: entries_def db_logged_eq)
  have g: "length (active_goals db_logged 1) = 1"
    by (simp add: active_goals_def db_logged_eq db1_eq db0_def)
  have d: "ProgressLog (snd (post_delete db_logged bob_session ''1'')) = []"
    "Goal (snd (post_delete db_logged bob_session ''1'')) = []"
    by (simp_all add: post_delete_def parse_examples delete_progress_def delete_goals_def
        delete_project_def int4_param_def in_int4_def bob_session_def db_logged_eq db1_eq
        db0_def)
  have w: "wordCount None (Some ''5'') = 5" by (simp add: wordCount_def parse_examples positive_def)
  have ct: "current_total db_logged 1 = 50"
    by (simp add: current_total_def lastLog_rows_def db_logged_eq)
  have l: "entries (snd (post_log_words db_logged bob_session 20 ''1'' None (Some ''5''))) 1 =
     entries db_logged 1 @ [\<lparr>l_project_id = 1, word_count = 5, total_words = 55, log_date = 20\<rparr>]"
    by (simp add: post_log_words_eq [OF id_1] w ct in_int4_def entries_append)
  have d1: "entries (snd (post_delete db_logged bob_session ''1'')) 1 = []"
    by (simp add: entries_def d)
  have d2: "active_goals (snd (post_delete db_logged bob_session ''1'')) 1 = []"
    by (simp add: active_goals_def d)
  have u: "userId bob_session = 2" by (simp add: bob_session_def)
  show ?thesis
    using r p u e g d1 d2 l by blast
qed

subsection \<open>C3: restating the total in the edit form\<close>

text \<open>
  Claim C3 as stated: for every integer \<open>N\<close>, after the edit restates the total as
  \<open>N\<close>, either \<open>N\<close> is the previous total and nothing is appended, or one entry with
  delta \<open>N - previousTotal\<close> and total \<open>N\<close> is appended, and the current total is \<open>N\<close>.

  This fails for a negative \<open>N\<close> on a project without entries: the handler appends the
  first entry only when \<open>currentTotal > 0\<close>. Alice's project has no entry; her edit
  states the current words as \<open>-5\<close>; nothing is appended and the current total stays 0.
\<close>

theorem edit_negative_total_not_recorded:
  "parseIntField (currentWords (novel_form\<lparr>currentWords := Some ''-5''\<rparr>)) = Some (- 5) \<and>
   ProgressLog (snd (post_edit db1 alice_session 12 ''1''
       (novel_form\<lparr>currentWords := Some ''-5''\<rparr>))) = ProgressLog db1 \<and>
   current_total (snd (post_edit db1 alice_session 12 ''1''
       (novel_form\<lparr>currentWords := Some ''-5''\<rparr>))) 1 \<noteq> - 5"
proof -
  let ?b = "novel_form\<lparr>currentWords := Some ''-5''\<rparr>"
  have u: "in_int4 (userId alice_session)" by (simp add: alice_session_def in_int4_def)
  have t: "int4_param (parseIntField (targetWords ?b)) = Some 10000"
    by (simp add: novel_form_def no_body_def parseIntField_def parse_examples int4_param_def
        in_int4_def)
  have d: "in_int4 (or_1000 (parseIntField (dailyGoal ?b)))"
    by (simp add: novel_form_def no_body_def parseIntField_def parse_examples or_1000_def
        in_int4_def)
  have c: "parseIntField (currentWords ?b) = Some (- 5)"
    by (simp add: parseIntField_def parse_examples)
  obtain db2 where l: "ProgressLog db2 = ProgressLog db1"
    and r: "snd (post_edit db1 alice_session 12 ''1'' ?b) = db2"
    using post_edit_log [OF id_1 u t d c, of db1 12]
    by (auto simp: db1_log)
  show ?thesis
    using c by (simp add: r l current_total_cong [OF l] db1_log)
qed

text \<open>
  Claim C3, amended. The edit is one of an existing project, its form has a title and a
  genre, and the identifiers, the target and the daily goal it hands to its two updates
  are numbers of the integer range, so that the handler reaches the part that restates
  the total (the schema is not among the sources; it may refuse a statement for a
  missing title or for a project that does not exist, and of such requests the theorem
  says nothing). The form states the current total as the integer \<open>N\<close>. No entry is
  appended when \<open>N\<close> is the previous total (0 without entries), when the project has no
  entry and \<open>N \<le> 0\<close>, or when \<open>N\<close> or \<open>N - previousTotal\<close> lies outside the integer
  range (the database rejects the insertion). Otherwise exactly one entry is appended,
  with delta \<open>N - previousTotal\<close>, total \<open>N\<close> and the time of the edit. Afterwards the
  current total is \<open>N\<close>, provided that every earlier entry of the project is dated
  before the edit, that \<open>N\<close> and the delta are in the range, and that the case of a
  negative \<open>N\<close> without entries is left out.
\<close>

theorem edit_restates_total:
  assumes "int4_param (parseInt i) = Some pid" and "pid \<in> project_id ` set (Project db)"
    and "in_int4 (userId s)"
    and "b_title b \<noteq> None" and "b_genre b \<noteq> None"
    and "int4_param (parseIntField (targetWords b)) = Some t"
    and "in_int4 (or_1000 (parseIntField (dailyGoal b)))"
    and "parseIntField (currentWords b) = Some N"
  shows "ProgressLog (snd (post_edit db s now i b)) =
           (if N = current_total db pid \<or> (entries db pid = [] \<and> N \<le> 0) \<or>
               \<not> in_int4 N \<or> \<not> in_int4 (N - current_total db pid)
            then ProgressLog db
            else ProgressLog db @
                 [\<lparr>l_project_id = pid, word_count = N - current_total db pid, total_words = N,
                   log_date = now\<rparr>]) \<and>
         ((\<forall>e \<in> set (entries db pid). log_date e < now) \<and>
          \<not> (entries db pid = [] \<and> N < 0) \<and> in_int4 N \<and> in_int4 (N - current_total db pid)
            \<longrightarrow> current_total (snd (post_edit db s now i b)) pid = N)"
proof -
  let ?append = "N \<noteq> current_total db pid \<and> \<not> (entries db pid = [] \<and> N \<le> 0) \<and>
                 in_int4 N \<and> in_int4 (N - current_total db pid)"
  obtain db2 where l: "ProgressLog db2 = ProgressLog db"
    and r: "snd (post_edit db s now i b) =
             (if ?append
              then db2\<lparr>ProgressLog := ProgressLog db2 @
                 [\<lparr>l_project_id = pid, word_count = N - current_total db pid, total_words = N,
                   log_date = now\<rparr>]\<rparr>
              else db2)"
    using post_edit_log [OF assms(1,3,6,7,8)] by blast
  have e0: "entries db pid = [] \<Longrightarrow> current_total db pid = 0"
    by (rule current_total_no_entries)
  have A: "ProgressLog (snd (post_edit db s now i b)) =
           (if N = current_total db pid \<or> (entries db pid = [] \<and> N \<le> 0) \<or>
               \<not> in_int4 N \<or> \<not> in_int4 (N - current_total db pid)
            then ProgressLog db
            else ProgressLog db @
                 [\<lparr>l_project_id = pid, word_count = N - current_total db pid, total_words = N,
                   log_date = now\<rparr>])"
    by (cases ?append) (auto simp: r l)
  have B: "current_total (snd (post_edit db s now i b)) pid = N"
    if old: "\<forall>e \<in> set (entries db pid). log_date e < now"
      and nn: "\<not> (entries db pid = [] \<and> N < 0)"
      and rng: "in_int4 N" "in_int4 (N - current_total db pid)"
  proof (cases ?append)
    case True
    have "\<forall>r \<in> set (entries db2 pid). log_date r < now" using old by (simp add: entries_cong [OF l])
    then show ?thesis using True by (simp add: r current_total_append)
  next
    case False
    then have "N = current_total db pid" using nn e0 rng by auto
    then show ?thesis using False by (simp add: r current_total_cong [OF l])
  qed
  show ?thesis using A B by blast
qed

text \<open>
  The scenario of the specification: the log stands at 50, the edit form restates the
  current words as 40, and an entry with delta -10 and total 40 is appended.
\<close>

theorem edit_restates_total_witness:
  "ProgressLog (snd (post_edit db_logged alice_session 12 ''1''
       (novel_form\<lparr>currentWords := Some ''40''\<rparr>))) =
     ProgressLog db_logged @
       [\<lparr>l_project_id = 1, word_count = - 10, total_words = 40, log_date = 12\<rparr>] \<and>
   current_total (snd (post_edit db_logged alice_session 12 ''1''
       (novel_form\<lparr>currentWords := Some ''40''\<rparr>))) 1 = 40"
proof -
  let ?b = "novel_form\<lparr>currentWords := Some ''40''\<rparr>"
  have p: "(1::int) \<in> project_id ` set (Project db_logged)"
    by (simp add: db_logged_eq db1_eq db0_def)
  have u: "in_int4 (userId alice_session)" by (simp add: alice_session_def in_int4_def)
  have f: "b_title ?b \<noteq> None" "b_genre ?b \<noteq> None" by (simp_all add: novel_form_def)
  have t: "int4_param (parseIntField (targetWords ?b)) = Some 10000"
    by (simp add: novel_form_def no_body_def parseIntField_def parse_examples int4_param_def
        in_int4_def)
  have d: "in_int4 (or_1000 (parseIntField (dailyGoal ?b)))"
    by (simp add: novel_form_def no_body_def parseIntField_def parse_examples or_1000_def
        in_int4_def)
  have c: "parseIntField (currentWords ?b) = Some 40"
    by (simp add: parseIntField_def parse_examples)
  have ct: "current_total db_logged 1 = 50"
    by (simp add: current_total_def lastLog_rows_def db_logged_eq)
  have en: "entries db_logged 1 = ProgressLog db_logged"
    by (simp add: entries_def db_logged_eq)
  show ?thesis
    using edit_restates_total [OF id_1 p u f t d c, of 12]
    by (simp add: ct en db_logged_eq in_int4_def)
qed

subsection \<open>C4: the total is the sum of the logged words\<close>

text \<open>
  Claim C4 as stated: for a project whose log is empty and every sequence of
  \<open>recordWords\<close> calls with positive integer deltas, the current total afterwards is
  the sum of the deltas, and each call returns the previous total plus its delta.

  This fails for a delta beyond the integer range of the \<open>word_count\<close> and
  \<open>total_words\<close> columns: the database rejects the insertion, the handler's \<open>catch\<close>
  redirects to the dashboard, and nothing is recorded. Alice submits the manual count
  \<open>3000000000\<close> to her project, which has no entry: the derived word count is
  3000000000, the log stays empty and the current total stays 0.
\<close>

theorem log_words_beyond_range_not_recorded:
  "entries db1 1 = [] \<and>
   wordCount None (Some ''3000000000'') = 3000000000 \<and>
   post_log_words db1 alice_session 10 ''1'' None (Some ''3000000000'') =
     (Redirect ''/dashboard'', db1) \<and>
   current_total (log_words_seq db1 alice_session ''1'' [(10, None, Some ''3000000000'')]) 1 = 0 \<and>
   recordWords db1 (parseInt ''1'') 3000000000 10 = Rejected"
proof -
  have w: "wordCount None (Some ''3000000000'') = 3000000000"
    by (simp add: wordCount_def parse_examples positive_def)
  have r: "recordWords db1 (parseInt ''1'') 3000000000 10 = Rejected"
    by (simp add: recordWords_eq [OF id_1] in_int4_def)
  have p: "post_log_words db1 alice_session 10 ''1'' None (Some ''3000000000'') =
     (Redirect ''/dashboard'', db1)"
    by (simp add: post_log_words_def w r)
  show ?thesis by (simp add: w r p db1_log)
qed

text \<open>
  Claim C4, amended: for an existing project whose log is empty and a sequence of
  word-logging submissions with positive word counts whose sum is at most 2147483647,
  handled at strictly increasing times, the current total afterwards is the sum of the
  word counts. A call of \<open>recordWords\<close> for the project with a delta \<open>d\<close> yields the
  previous total plus \<open>d\<close> as the new total when \<open>d\<close> and that total are in the integer
  range, and is rejected, with nothing recorded, when one of them is not.
\<close>

theorem log_words_total_is_sum:
  assumes "int4_param (parseInt i) = Some pid"
    and "pid \<in> project_id ` set (Project db)"
    and "entries db pid = []"
    and "sorted_wrt (<) (map fst rs)"
    and "\<forall>(now, text_field, manual) \<in> set rs. 0 < wordCount text_field manual"
    and "sum_list (map (\<lambda>(now, text_field, manual). wordCount text_field manual) rs)
           \<le> 2147483647"
  shows "current_total (log_words_seq db s i rs) pid =
           sum_list (map (\<lambda>(now, text_field, manual). wordCount text_field manual) rs) \<and>
         (\<forall>db' d now.
            pid \<in> project_id ` set (Project db') \<and> in_int4 d \<and>
            in_int4 (current_total db' pid + d) \<longrightarrow>
            recordWords db' (parseInt i) d now =
              Resolved (current_total db' pid + d,
                db'\<lparr>ProgressLog := ProgressLog db' @
                  [\<lparr>l_project_id = pid, word_count = d,
                    total_words = current_total db' pid + d, log_date = now\<rparr>]\<rparr>)) \<and>
         (\<forall>db' d now.
            \<not> in_int4 d \<or> \<not> in_int4 (current_total db' pid + d) \<longrightarrow>
            recordWords db' (parseInt i) d now = Rejected)"
proof -
  have "current_total db pid = 0"
    using assms(3) by (rule current_total_no_entries)
  then have "current_total (log_words_seq db s i rs) pid =
           sum_list (map (\<lambda>(now, text_field, manual). wordCount text_field manual) rs)"
    using log_words_seq_total [OF assms(1) _ assms(4), of db s] assms(3,6)
    by simp
  then show ?thesis
    by (simp add: recordWords_eq [OF assms(1)])
qed

text \<open>Two submissions, 3 and 47 words, to Alice's empty project: the total is 50.\<close>

theorem log_words_total_is_sum_witness:
  "current_total
     (log_words_seq db1 alice_session ''1'' [(10, None, Some ''3''), (11, None, Some ''47'')]) 1 = 50 \<and>
   recordWords db1 (parseInt ''1'') 3 10 =
     Resolved (3, db1\<lparr>ProgressLog :=
       [\<lparr>l_project_id = 1, word_count = 3, total_words = 3, log_date = 10\<rparr>]\<rparr>)"
proof -
  let ?rs = "[(10, None, Some ''3''), (11, None, Some ''47'')] ::
             (timestamp \<times> string option \<times> string option) list"
  have w: "wordCount None (Some ''3'') = 3" "wordCount None (Some ''47'') = 47"
    by (simp_all add: wordCount_def parse_examples positive_def)
  have 2: "(1::int) \<in> project_id ` set (Project db1)" by (simp add: db1_eq db0_def)
  have 4: "sorted_wrt (<) (map fst ?rs)" by simp
  have 5: "\<forall>(now, text_field, manual) \<in> set ?rs. 0 < wordCount text_field manual"
    by (simp add: w)
  have 6: "sum_list (map (\<lambda>(now, text_field, manual). wordCount text_field manual) ?rs)
             \<le> 2147483647"
    by (simp add: w)
  have r: "in_int4 3" "in_int4 (current_total db1 1 + 3)" by (simp_all add: in_int4_def db1_log)
  show ?thesis
    using log_words_total_is_sum [OF id_1 2 db1_log(2) 4 5 6, of alice_session] 2 r
    by (simp add: w db1_log)
qed

subsection \<open>C5: a zero word count is rejected\<close>




subsection \<open>C6: one active goal per project\<close>




subsection \<open>C7: protected routes need a login\<close>

text \<open>
  Claim C7: a request to any path other than \<open>/\<close>, \<open>/login\<close> and \<open>/logout\<close> by a
  session that is not logged in is answered with the login view and the message
  ``Please log in to access this page''; no handler runs, and the database and the
  session are unchanged.
\<close>

theorem unauthenticated_renders_login:
  assumes "req_path req \<noteq> ''/''" and "req_path req \<noteq> ''/login''" and "req_path req \<noteq> ''/logout''"
    and "\<not> isLoggedIn sess"
  shows "app db now sess req =
           (Render ''login'' [(''error_message'', VText (Some ''Please log in to access this page''))],
            db, sess)"
  using assms by (simp add: app_def openPaths_def isLoggedIn_def)

text \<open>\<open>GET /dashboard\<close> without a login.\<close>

theorem unauthenticated_renders_login_witness:
  "app db1 7 None
     \<lparr>req_path = ''/dashboard'', req_route = GetDashboard, query_q = None, req_body = no_body\<rparr> =
   (Render ''login'' [(''error_message'', VText (Some ''Please log in to access this page''))],
    db1, None)"
  using unauthenticated_renders_login
    [of "\<lparr>req_path = ''/dashboard'', req_route = GetDashboard, query_q = None,
          req_body = no_body\<rparr>" None db1 7]
  by (simp add: isLoggedIn_def)

subsection \<open>C8: free text is counted by its tokens\<close>

text \<open>
  Claim C8: for a submission of free text with no positive manual count, the derived
  word count is the number of white-space-separated tokens of the trimmed text, and the
  submission appends either nothing or one entry whose delta is that number and whose
  total is the previous total plus that number. The entry is appended when the
  identifier in the path names an existing project, the text has a token, and the count
  and the new total are in the integer range. Nothing is appended when the text has no
  token, when the identifier is not a number of the integer range, or when the count or
  the new total is outside that range.
\<close>

theorem free_text_delta_is_token_count:
  assumes "\<not> positive (parseIntField manual)"
  shows "wordCount (Some t) manual = int (length (tokens (trim t))) \<and>
         (\<forall>pid.
            int4_param (parseInt i) = Some pid \<longrightarrow>
            (snd (post_log_words db s now i (Some t) manual) = db \<or>
             snd (post_log_words db s now i (Some t) manual) =
               db\<lparr>ProgressLog := ProgressLog db @
                 [\<lparr>l_project_id = pid, word_count = int (length (tokens (trim t))),
                   total_words = current_total db pid + int (length (tokens (trim t))),
                   log_date = now\<rparr>]\<rparr>) \<and>
            (pid \<in> project_id ` set (Project db) \<and> tokens (trim t) \<noteq> [] \<and>
             in_int4 (int (length (tokens (trim t)))) \<and>
             in_int4 (current_total db pid + int (length (tokens (trim t)))) \<longrightarrow>
             post_log_words db s now i (Some t) manual =
               (Redirect ''/dashboard'',
                db\<lparr>ProgressLog := ProgressLog db @
                  [\<lparr>l_project_id = pid, word_count = int (length (tokens (trim t))),
                    total_words = current_total db pid + int (length (tokens (trim t))),
                    log_date = now\<rparr>]\<rparr>)) \<and>
            (tokens (trim t) = [] \<or> \<not> in_int4 (int (length (tokens (trim t)))) \<or>
             \<not> in_int4 (current_total db pid + int (length (tokens (trim t)))) \<longrightarrow>
             snd (post_log_words db s now i (Some t) manual) = db)) \<and>
         (int4_param (parseInt i) = None \<longrightarrow>
            snd (post_log_words db s now i (Some t) manual) = db)"
proof -
  let ?n = "int (length (tokens (trim t)))"
  have w: "wordCount (Some t) manual = ?n"
    using wordCount_text [OF assms, of t] by (simp add: tokens_trim)
  have A: "snd (post_log_words db s now i (Some t) manual) =
     (if tokens (trim t) \<noteq> [] \<and> in_int4 ?n \<and> in_int4 (current_total db pid + ?n)
      then db\<lparr>ProgressLog := ProgressLog db @
         [\<lparr>l_project_id = pid, word_count = ?n, total_words = current_total db pid + ?n,
           log_date = now\<rparr>]\<rparr>
      else db)"
    if "int4_param (parseInt i) = Some pid" for pid
    using post_log_words_eq [OF that, of db s now "Some t" manual] by (simp add: w)
  have B: "fst (post_log_words db s now i (Some t) manual) = Redirect ''/dashboard''"
    if "tokens (trim t) \<noteq> []"
    using that w by (simp add: post_log_words_def Let_def split: attempt.splits prod.splits)
  have C: "snd (post_log_words db s now i (Some t) manual) = db" if "int4_param (parseInt i) = None"
    using that by (rule post_log_words_bad_id)
  show ?thesis
  proof (intro conjI allI impI)
    show "wordCount (Some t) manual = ?n" by (rule w)
  next
    fix pid assume "int4_param (parseInt i) = Some pid"
    then show "snd (post_log_words db s now i (Some t) manual) = db \<or>
             snd (post_log_words db s now i (Some t) manual) =
               db\<lparr>ProgressLog := ProgressLog db @
                 [\<lparr>l_project_id = pid, word_count = ?n,
                   total_words = current_total db pid + ?n, log_date = now\<rparr>]\<rparr>"
      by (simp add: A)
  next
    fix pid
    assume p: "int4_param (parseInt i) = Some pid"
      and "pid \<in> project_id ` set (Project db) \<and> tokens (trim t) \<noteq> [] \<and>
             in_int4 ?n \<and> in_int4 (current_total db pid + ?n)"
    then have "snd (post_log_words db s now i (Some t) manual) =
                db\<lparr>ProgressLog := ProgressLog db @
                  [\<lparr>l_project_id = pid, word_count = ?n,
                    total_words = current_total db pid + ?n, log_date = now\<rparr>]\<rparr>"
      and "fst (post_log_words db s now i (Some t) manual) = Redirect ''/dashboard''"
      using B by (simp_all add: A [OF p])
    then show "post_log_words db s now i (Some t) manual =
               (Redirect ''/dashboard'',
                db\<lparr>ProgressLog := ProgressLog db @
                  [\<lparr>l_project_id = pid, word_count = ?n,
                    total_words = current_total db pid + ?n, log_date = now\<rparr>]\<rparr>)"
      by (simp add: prod_eq_iff)
  next
    fix pid
    assume p: "int4_param (parseInt i) = Some pid"
      and "tokens (trim t) = [] \<or> \<not> in_int4 ?n \<or> \<not> in_int4 (current_total db pid + ?n)"
    then show "snd (post_log_words db s now i (Some t) manual) = db"
      by (auto simp: A [OF p])
  next
    assume "int4_param (parseInt i) = None"
    then show "snd (post_log_words db s now i (Some t) manual) = db" by (rule C)
  qed
qed

text \<open>
  The scenario of the specification: the text \<open>one two three\<close> submitted to a project
  whose current total is 0 makes the current total 3.
\<close>

theorem free_text_delta_is_token_count_witness:
  "current_total db1 1 = 0 \<and>
   wordCount (Some ''one two three'') None = 3 \<and>
   current_total (snd (post_log_words db1 alice_session 10 ''1'' (Some ''one two three'') None)) 1 = 3"
proof -
  have t: "tokens (trim ''one two three'') = [''one'', ''two'', ''three'']"
    by (simp add: tokens.simps trim_def isWhiteSpace_def)
  have m: "\<not> positive (parseIntField None)" by (simp add: positive_def parseIntField_def)
  have p: "(1::int) \<in> project_id ` set (Project db1)" by (simp add: db1_eq db0_def)
  note T = free_text_delta_is_token_count [OF m, of "''one two three''" "''1''" db1 alice_session 10]
  have w: "wordCount (Some ''one two three'') None = 3"
    using T [THEN conjunct1] by (simp add: t)
  have "post_log_words db1 alice_session 10 ''1'' (Some ''one two three'') None =
          (Redirect ''/dashboard'',
           db1\<lparr>ProgressLog := ProgressLog db1 @
             [\<lparr>l_project_id = 1, word_count = 3, total_words = current_total db1 1 + 3,
               log_date = 10\<rparr>]\<rparr>)"
    using T [THEN conjunct2, THEN conjunct1, rule_format, OF id_1, THEN conjunct2,
             THEN conjunct1, rule_format] p
    by (simp add: t db1_log in_int4_def)
  then show ?thesis
    using w by (simp add: db1_log current_total_def lastLog_rows_def)
qed

subsection \<open>C9: a manager cannot delete the own account\<close>

text \<open>
  Claim C9: for a manager session, a request that the router matches to
  \<open>POST /delete-user/:id\<close>, with a parameter \<open>:id\<close> that \<open>parseInt\<close> reads as the
  session's own user identifier, is answered with status 400 and ``You cannot delete
  your own account'', whatever the body and the query, and the database is unchanged.
  The parameter is the one the router hands to the handler (the decoded path segment);
  the path of such a request is none of the three open paths.
\<close>

theorem manager_self_deletion_rejected:
  assumes "req_route req = PostDeleteUser i"
    and "req_path req \<notin> set openPaths"
    and "parseInt i = Some (userId s)"
    and "s_permissions s = Some ''M''"
  shows "app db now (Some s) req = (Send 400 ''You cannot delete your own account'', db, Some s)"
  using assms
  by (simp add: app_def routes_def keep_def requireManager_def post_delete_user_def)

text \<open>Alice, a manager with user identifier 1, posts \<open>/delete-user/1\<close>.\<close>

theorem manager_self_deletion_rejected_witness:
  "app db0 7 (Some alice_session)
     \<lparr>req_path = ''/delete-user/1'', req_route = PostDeleteUser ''1'', query_q = None,
      req_body = no_body\<rparr> =
   (Send 400 ''You cannot delete your own account'', db0, Some alice_session)"
proof -
  let ?req = "\<lparr>req_path = ''/delete-user/1'', req_route = PostDeleteUser ''1'', query_q = None,
      req_body = no_body\<rparr>"
  have 1: "req_route ?req = PostDeleteUser ''1''" by simp
  have 2: "req_path ?req \<notin> set openPaths" by (simp add: openPaths_def)
  have 3: "parseInt ''1'' = Some (userId alice_session)"
    by (simp add: parse_examples alice_session_def)
  have 4: "s_permissions alice_session = Some ''M''" by (simp add: alice_session_def)
  show ?thesis using manager_self_deletion_rejected [OF 1 2 3 4] .
qed

text \<open>
  Whatever the identifier in the path, the row of the session's own user is still in the
  table afterwards: the statement deletes the rows of another identifier.
\<close>

lemma post_delete_user_keeps_own_row:
  "u \<in> set (User db) \<Longrightarrow> user_id u = userId s \<Longrightarrow>
   u \<in> set (User (snd (post_delete_user db s i)))"
  by (auto simp: post_delete_user_def delete_user_def Let_def int4_param_def
      split: option.splits if_splits)

subsection \<open>C10: failed logins look the same\<close>

text \<open>
  Claim C10: a login with a username that no user has and a login with an existing
  username and a wrong password get the same answer, the login view with ``Invalid
  username or password'', and leave the database and the session as they were.
\<close>

theorem login_failures_indistinguishable:
  assumes "\<forall>u \<in> set (User db). username u \<noteq> Some n1"
    and "select_login db (Some n2) = (u, sec) # rest"
    and "pw2 \<noteq> Some (password_text sec)"
  shows "post_login db now sess (Some n1) pw1 = post_login db now sess (Some n2) pw2 \<and>
         post_login db now sess (Some n2) pw2 =
           (Render ''login'' [(''error_message'', VText (Some ''Invalid username or password''))],
            db, sess)"
  using assms select_login_no_user [of db "Some n1"]
  by (simp add: post_login_def)

text \<open>\<open>carol\<close> does not exist; \<open>alice\<close> exists and her password is not \<open>wrong\<close>.\<close>

theorem login_failures_indistinguishable_witness:
  "post_login db0 7 None (Some ''carol'') (Some ''secret'') =
     post_login db0 7 None (Some ''alice'') (Some ''wrong'') \<and>
   post_login db0 7 None (Some ''alice'') (Some ''wrong'') =
     (Render ''login'' [(''error_message'', VText (Some ''Invalid username or password''))],
      db0, None)"
proof -
  have 1: "\<forall>u \<in> set (User db0). username u \<noteq> Some ''carol''"
    by (simp add: db0_def alice_def bob_def)
  have 2: "select_login db0 (Some ''alice'') =
             (alice, \<lparr>s_user_id = 1, password_text = ''secret'', last_login = None\<rparr>) # []"
    by (simp add: select_login_def db0_def alice_def bob_def)
  have 3: "Some ''wrong'' \<noteq> Some (password_text \<lparr>s_user_id = 1, password_text = ''secret'', last_login = None\<rparr>)"
    by simp
  show ?thesis using login_failures_indistinguishable [OF 1 2 3] by simp
qed

end
